theory Spec2Isabelle
  imports Main
begin

section \<open>Python text\<close>

text \<open>
  A Python \<^verbatim>\<open>str\<close> is a sequence of Unicode code points, and its operations count
  and classify code points. So a character of the model is a code point, a natural
  number, and a text is a list of them. \<open>lit\<close> writes a text by its ASCII spelling and
  \<open>cp\<close> a character by its.
\<close>

type_synonym pychar = nat

type_synonym pystr = "pychar list"

definition cp :: "char \<Rightarrow> pychar" where
  "cp c = of_char c"

definition lit :: "string \<Rightarrow> pystr" where
  "lit s = map cp s"

text \<open>
  The whitespace of \<^verbatim>\<open>str.strip()\<close>, \<^verbatim>\<open>str.isspace()\<close> and the pattern \<^verbatim>\<open>\s\<close>, which
  are one class: the ASCII controls 0x09..0x0D and 0x1C..0x1F, the space, and the
  Unicode spaces and separators U+0085, U+00A0, U+1680, U+2000..U+200A, U+2028,
  U+2029, U+202F, U+205F and U+3000.
\<close>

definition whitespace_chars :: "pychar list" where
  "whitespace_chars =
     [0x09, 0x0A, 0x0B, 0x0C, 0x0D, 0x1C, 0x1D, 0x1E, 0x1F, 0x20, 0x85, 0xA0, 0x1680,
      0x2000, 0x2001, 0x2002, 0x2003, 0x2004, 0x2005, 0x2006, 0x2007, 0x2008, 0x2009,
      0x200A, 0x2028, 0x2029, 0x202F, 0x205F, 0x3000]"

definition isspace :: "pychar \<Rightarrow> bool" where
  "isspace c = (c \<in> set whitespace_chars)"

text \<open>
  The decimal digits of the pattern \<^verbatim>\<open>\d\<close> and of \<^verbatim>\<open>int()\<close>: the characters of the
  Unicode category Nd. They come in runs of ten, in the order of their values, and the
  table lists where each run begins (Unicode 14.0, the tables of CPython 3.11).
\<close>

definition decimal_bases :: "pychar list" where
  "decimal_bases =
     [0x30, 0x660, 0x6F0, 0x7C0, 0x966, 0x9E6, 0xA66, 0xAE6, 0xB66, 0xBE6, 0xC66,
      0xCE6, 0xD66, 0xDE6, 0xE50, 0xED0, 0xF20, 0x1040, 0x1090, 0x17E0, 0x1810,
      0x1946, 0x19D0, 0x1A80, 0x1A90, 0x1B50, 0x1BB0, 0x1C40, 0x1C50, 0xA620, 0xA8D0,
      0xA900, 0xA9D0, 0xA9F0, 0xAA50, 0xABF0, 0xFF10, 0x104A0, 0x10D30, 0x11066,
      0x110F0, 0x11136, 0x111D0, 0x112F0, 0x11450, 0x114D0, 0x11650, 0x116C0, 0x11730,
      0x118E0, 0x11950, 0x11C50, 0x11D50, 0x11DA0, 0x16A60, 0x16AC0, 0x16B50, 0x1D7CE,
      0x1D7D8, 0x1D7E2, 0x1D7EC, 0x1D7F6, 0x1E140, 0x1E2F0, 0x1E950, 0x1FBF0]"

definition decimal_value :: "pychar \<Rightarrow> nat option" where
  "decimal_value c =
     map_option (\<lambda>b. c - b) (List.find (\<lambda>b. b \<le> c \<and> c < b + 10) decimal_bases)"

definition isdigit :: "pychar \<Rightarrow> bool" where
  "isdigit c = (decimal_value c \<noteq> None)"

text \<open>\<^verbatim>\<open>s.lstrip()\<close>, \<^verbatim>\<open>s.rstrip()\<close> and \<^verbatim>\<open>s.strip()\<close> without argument.\<close>

definition lstrip :: "pystr \<Rightarrow> pystr" where
  "lstrip s = dropWhile isspace s"

definition rstrip :: "pystr \<Rightarrow> pystr" where
  "rstrip s = rev (dropWhile isspace (rev s))"

definition strip :: "pystr \<Rightarrow> pystr" where
  "strip s = rstrip (lstrip s)"

text \<open>\<^verbatim>\<open>s.lstrip("-")\<close>: every leading occurrence of the given character goes.\<close>

definition lstrip_char :: "pychar \<Rightarrow> pystr \<Rightarrow> pystr" where
  "lstrip_char c s = dropWhile (\<lambda>x. x = c) s"

text \<open>\<^verbatim>\<open>s.startswith(p)\<close>.\<close>

definition startswith :: "pystr \<Rightarrow> pystr \<Rightarrow> bool" where
  "startswith p s = (take (length p) s = p)"

text \<open>
  \<^verbatim>\<open>s.find(needle)\<close>: the index of the leftmost occurrence, \<open>None\<close> for Python's -1.
\<close>

primrec find :: "pystr \<Rightarrow> pystr \<Rightarrow> nat option" where
  "find needle [] = (if needle = [] then Some 0 else None)"
| "find needle (c # cs) =
     (if startswith needle (c # cs) then Some 0 else map_option Suc (find needle cs))"

text \<open>\<^verbatim>\<open>s.find(needle, start)\<close> for a start inside the string.\<close>

definition find_from :: "pystr \<Rightarrow> nat \<Rightarrow> pystr \<Rightarrow> nat option" where
  "find_from needle start s = map_option (\<lambda>i. i + start) (find needle (drop start s))"

text \<open>\<^verbatim>\<open>needle in s\<close>.\<close>

definition contains :: "pystr \<Rightarrow> pystr \<Rightarrow> bool" where
  "contains needle s = (find needle s \<noteq> None)"

text \<open>
  \<^verbatim>\<open>s.split(sep)\<close> for a one-character separator: never empty, \<^verbatim>\<open>"".split(sep) == [""]\<close>.
\<close>

fun split_on :: "pychar \<Rightarrow> pystr \<Rightarrow> pystr list" where
  "split_on sep [] = [[]]"
| "split_on sep (c # cs) =
     (if c = sep then [] # split_on sep cs
      else (case split_on sep cs of
              [] \<Rightarrow> [[c]]
            | piece # pieces \<Rightarrow> (c # piece) # pieces))"

text \<open>\<^verbatim>\<open>sep.join(xs)\<close>.\<close>

fun join :: "pystr \<Rightarrow> pystr list \<Rightarrow> pystr" where
  "join sep [] = []"
| "join sep [x] = x"
| "join sep (x # y # ys) = x @ sep @ join sep (y # ys)"

text \<open>
  \<^verbatim>\<open>s.lower()\<close>, as far as its result can hold ASCII text: the capital letters A to Z,
  the Kelvin sign U+212A (to \<^verbatim>\<open>k\<close>) and the dotted capital I U+0130 (to \<^verbatim>\<open>i\<close> and the
  combining dot U+0307). Every other character that Python lowercases goes to
  characters outside ASCII and is left as it is here, which gives the same answer
  wherever the result is compared with ASCII text, the one use the script makes of it.
\<close>

definition lower_char :: "pychar \<Rightarrow> pystr" where
  "lower_char c =
     (if 0x41 \<le> c \<and> c \<le> 0x5A then [c + 0x20]
      else if c = 0x212A then [0x6B]
      else if c = 0x130 then [0x69, 0x307]
      else [c])"

definition lower :: "pystr \<Rightarrow> pystr" where
  "lower s = concat (map lower_char s)"

definition newline :: pychar where
  "newline = 0x0A"


section \<open>Data model\<close>

text \<open>
  \<^verbatim>\<open>subprocess.CompletedProcess\<close> as the script reads it (\<^verbatim>\<open>capture_output=True, text=True\<close>).
\<close>

record CompletedProcess =
  returncode :: int
  stdout :: pystr
  stderr :: pystr

text \<open>
  \<^verbatim>\<open>pathlib.Path\<close> values are kept symbolic: \<open>Path s\<close> is \<^verbatim>\<open>Path(s)\<close>, \<open>Join p s\<close> is
  \<^verbatim>\<open>p / s\<close>, \<open>Resolve p\<close> is \<^verbatim>\<open>p.resolve()\<close> and \<open>Cwd\<close> is \<^verbatim>\<open>Path.cwd()\<close>. What
  \<^verbatim>\<open>str(p)\<close> and \<^verbatim>\<open>p.exists()\<close> answer is the environment's business.
\<close>

datatype path = Path pystr | Join path pystr | Resolve path | Cwd

text \<open>The JSON-like values of the result dictionaries; a dictionary keeps its insertion order.\<close>

datatype pyval =
    PStr pystr
  | PInt int
  | PBool bool
  | PList "pyval list"
  | PDict "(pystr \<times> pyval) list"

type_synonym dict = "(pystr \<times> pyval) list"

text \<open>
  What the script reads from outside: the captured subprocess runs (git, grep), the
  path library, and the four documents at fixed places under the workspace
  (\<^verbatim>\<open>.state/vscode-mode\<close>, \<^verbatim>\<open>directory-map.md\<close>, \<^verbatim>\<open>.claude/active-task\<close> and
  \<^verbatim>\<open>tasks/active/<name>.md\<close>), each \<open>None\<close> when the file does not exist.
  A captured run always comes back with its exit code and its two streams, and a
  document that exists can be read: a program that cannot be started or a file that
  cannot be opened is outside the model.
\<close>

record env =
  subprocess_run :: "pystr list \<Rightarrow> path \<Rightarrow> CompletedProcess"
  path_str :: "path \<Rightarrow> pystr"
  path_exists :: "path \<Rightarrow> bool"
  vscode_mode_file :: "pystr option"
  directory_map_file :: "pystr option"
  active_task_file :: "pystr option"
  task_file :: "pystr \<Rightarrow> pystr option"

text \<open>
  What the script changes outside: the state directory, the remote command descriptor
  \<^verbatim>\<open>.state/vscode-commands\<close>, and the editor processes it launched, oldest first.
\<close>

record world =
  state_dir_exists :: bool
  vscode_commands_file :: "pystr option"
  launched :: "pystr list list"


section \<open>Editor dispatch\<close>

definition get_vscode_mode :: "env \<Rightarrow> pystr" where
  "get_vscode_mode e =
     (case vscode_mode_file e of
        None \<Rightarrow> lit ''remote''
      | Some text \<Rightarrow>
          (let mode = lower (strip text)
           in if mode = lit ''local'' \<or> mode = lit ''remote'' then mode else lit ''remote''))"

definition open_in_vscode :: "env \<Rightarrow> world \<Rightarrow> pystr list \<Rightarrow> bool \<Rightarrow> world" where
  "open_in_vscode e w files new_window =
     (if files = [] then w
      else
        (let cmd_parts = [lit ''code''] @ (if new_window then [lit ''--new-window''] else []) @ files;
             cmd = join (lit '' '') cmd_parts
         in if get_vscode_mode e = lit ''local''
            then w\<lparr>launched := launched w @ [cmd_parts]\<rparr>
            else w\<lparr>state_dir_exists := True,
                   vscode_commands_file := Some (cmd @ [newline])\<rparr>))"


section \<open>Integers and text\<close>

text \<open>\<^verbatim>\<open>str(n)\<close> of an integer, as the f-string \<^verbatim>\<open>f"HEAD~{n}"\<close> renders it.\<close>

definition digit_char :: "nat \<Rightarrow> pychar" where
  "digit_char d = 0x30 + d mod 10"

function str_nat :: "nat \<Rightarrow> pystr" where
  "str_nat n = (if n < 10 then [digit_char n] else str_nat (n div 10) @ [digit_char (n mod 10)])"
  by pat_completeness auto
termination
  by (relation "measure (\<lambda>n. n)") auto

declare str_nat.simps [simp del]

definition str_int :: "int \<Rightarrow> pystr" where
  "str_int i = (if i < 0 then cp (CHR ''-'') # str_nat (nat (- i)) else str_nat (nat i))"

text \<open>
  \<^verbatim>\<open>int(s)\<close> on text, base 10: surrounding whitespace goes, one sign may lead, and the
  digits may be grouped by single underscores. Anything else raises \<^verbatim>\<open>ValueError\<close>.
  (The interpreter's optional cap on the number of digits is not part of the model.)
\<close>

datatype error =
    ValueError pystr
  | InvalidLiteral pystr

definition digit_val :: "pychar \<Rightarrow> nat" where
  "digit_val c = (case decimal_value c of Some d \<Rightarrow> d | None \<Rightarrow> 0)"

fun digits_value :: "nat \<Rightarrow> pystr \<Rightarrow> nat" where
  "digits_value acc [] = acc"
| "digits_value acc (c # cs) =
     (if c = cp (CHR ''_'') then digits_value acc cs
      else digits_value (10 * acc + digit_val c) cs)"

definition int_literal_ok :: "pystr \<Rightarrow> bool" where
  "int_literal_ok s =
     (s \<noteq> [] \<and> isdigit (hd s) \<and> isdigit (last s)
      \<and> list_all (\<lambda>c. isdigit c \<or> c = cp (CHR ''_'')) s
      \<and> \<not> contains (lit ''__'') s)"

definition py_int :: "pystr \<Rightarrow> error + int" where
  "py_int s =
     (let t = strip s;
          negative = startswith (lit ''-'') t;
          body = (if startswith (lit ''-'') t \<or> startswith (lit ''+'') t then tl t else t)
      in if int_literal_ok body
         then Inr (if negative then - int (digits_value 0 body) else int (digits_value 0 body))
         else Inl (InvalidLiteral s))"


section \<open>Version-control adapter and the diff-range strategies\<close>

definition git :: "env \<Rightarrow> pystr list \<Rightarrow> path \<Rightarrow> CompletedProcess" where
  "git e args cwd = subprocess_run e (lit ''git'' # args) cwd"

text \<open>\<^verbatim>\<open>[f for f in out.strip().split("\n") if f]\<close>\<close>

definition nonempty_lines :: "pystr \<Rightarrow> pystr list" where
  "nonempty_lines out = filter (\<lambda>f. f \<noteq> []) (split_on newline (strip out))"

text \<open>
  \<^verbatim>\<open>branch_result.stdout.strip() if branch_result.returncode == 0 else "unknown"\<close>
\<close>

definition branch_or_unknown :: "CompletedProcess \<Rightarrow> pystr" where
  "branch_or_unknown branch_result =
     (if returncode branch_result = 0 then strip (stdout branch_result) else lit ''unknown'')"

text \<open>
  \<^verbatim>\<open>int(count_result.stdout.strip()) if count_result.returncode == 0 else 0\<close>
\<close>

definition commit_count_of :: "CompletedProcess \<Rightarrow> error + int" where
  "commit_count_of count_result =
     (if returncode count_result = 0 then py_int (strip (stdout count_result)) else Inr 0)"

definition cmd_incremental :: "env \<Rightarrow> world \<Rightarrow> path \<Rightarrow> int \<Rightarrow> dict \<times> world" where
  "cmd_incremental e w repo n =
     (let base = lit ''HEAD~'' @ str_int n;
          result = git e [lit ''diff'', lit ''--name-only'', base] repo
      in if returncode result \<noteq> 0 then
           ([(lit ''status'', PStr (lit ''error'')),
             (lit ''error'', PStr (strip (stderr result))),
             (lit ''repo'', PStr (path_str e repo))], w)
         else
           (let files = nonempty_lines (stdout result)
            in if files = [] then
                 ([(lit ''status'', PStr (lit ''nothing_to_review'')),
                   (lit ''base'', PStr base),
                   (lit ''repo'', PStr (path_str e repo))], w)
               else
                 (let branch_result = git e [lit ''branch'', lit ''--show-current''] repo;
                      current_branch = branch_or_unknown branch_result;
                      full_paths = map (\<lambda>f. path_str e (Join repo f)) files;
                      w' = open_in_vscode e w full_paths True
                  in ([(lit ''status'', PStr (lit ''staged'')),
                       (lit ''mode'', PStr (get_vscode_mode e)),
                       (lit ''repo'', PStr (path_str e repo)),
                       (lit ''branch'', PStr current_branch),
                       (lit ''base'', PStr base),
                       (lit ''head'', PStr (lit ''HEAD'')),
                       (lit ''files'', PList (map PStr files)),
                       (lit ''file_count'', PInt (int (length files)))], w'))))"

definition cmd_milestone :: "env \<Rightarrow> world \<Rightarrow> path \<Rightarrow> pystr \<Rightarrow> (error + dict) \<times> world" where
  "cmd_milestone e w repo branch =
     (let merge_base_result = git e [lit ''merge-base'', lit ''HEAD'', branch] repo
      in if returncode merge_base_result \<noteq> 0 then
           (Inr [(lit ''status'', PStr (lit ''error'')),
                 (lit ''error'', PStr (lit ''Could not find merge base with '' @ branch)),
                 (lit ''repo'', PStr (path_str e repo))], w)
         else
           (let merge_base = strip (stdout merge_base_result);
                result = git e [lit ''diff'', lit ''--name-only'', merge_base] repo;
                files = nonempty_lines (stdout result);
                count_result = git e [lit ''rev-list'', lit ''--count'', merge_base @ lit ''..HEAD''] repo
            in case commit_count_of count_result of
                 Inl err \<Rightarrow> (Inl err, w)
               | Inr commit_count \<Rightarrow>
                   (let branch_result = git e [lit ''branch'', lit ''--show-current''] repo;
                        current_branch = branch_or_unknown branch_result
                    in if files = [] then
                         (Inr [(lit ''status'', PStr (lit ''nothing_to_review'')),
                               (lit ''base'', PStr branch),
                               (lit ''merge_base'', PStr (take 8 merge_base)),
                               (lit ''repo'', PStr (path_str e repo))], w)
                       else
                         (let full_paths = map (\<lambda>f. path_str e (Join repo f)) files;
                              w' = open_in_vscode e w full_paths True
                          in (Inr [(lit ''status'', PStr (lit ''staged'')),
                                   (lit ''mode'', PStr (get_vscode_mode e)),
                                   (lit ''repo'', PStr (path_str e repo)),
                                   (lit ''branch'', PStr current_branch),
                                   (lit ''base'', PStr branch),
                                   (lit ''merge_base'', PStr (take 8 merge_base)),
                                   (lit ''files'', PList (map PStr files)),
                                   (lit ''file_count'', PInt (int (length files))),
                                   (lit ''commit_count'', PInt commit_count)], w')))))"



section \<open>Comment scanner\<close>

text \<open>
  The scanner reads the search tool's output line by line; the lines come from
  \<^verbatim>\<open>split("\n")\<close> and so hold no line feed, which is where \<^verbatim>\<open>.\<close> and \<^verbatim>\<open>$\<close> of the
  patterns would otherwise matter.

  \<^verbatim>\<open>([^:]+):(\d+):(.*)$\<close> from a given start: the path group runs to the first colon and
  may not be empty, the digits are the whole run behind it and must be followed by a
  colon; the third group is the rest of the line.
\<close>

definition match_tail :: "pystr \<Rightarrow> (pystr \<times> pystr \<times> pystr) option" where
  "match_tail s =
     (let filepath = takeWhile (\<lambda>c. c \<noteq> cp (CHR '':'')) s;
          after_path = dropWhile (\<lambda>c. c \<noteq> cp (CHR '':'')) s
      in if filepath = [] then None
         else (case after_path of
                 [] \<Rightarrow> None
               | _ # r \<Rightarrow>
                   (let digits = takeWhile isdigit r;
                        after_digits = dropWhile isdigit r
                    in if digits = [] then None
                       else (case after_digits of
                               [] \<Rightarrow> None
                             | c # rest \<Rightarrow>
                                 if c = cp (CHR '':'') then Some (filepath, digits, rest)
                                 else None))))"

fun first_some :: "'a option list \<Rightarrow> 'a option" where
  "first_some [] = None"
| "first_some (None # xs) = first_some xs"
| "first_some (Some x # xs) = Some x"

text \<open>
  \<^verbatim>\<open>re.match(r"^\.?/?([^:]+):(\d+):(.*)$", line)\<close>: the two optional characters are
  tried greedily, in the order the backtracking matcher tries them (both, the dot
  alone, the slash alone, neither).
\<close>

definition match_grep_line :: "pystr \<Rightarrow> (pystr \<times> pystr \<times> pystr) option" where
  "match_grep_line line =
     (let starts = (if startswith (lit ''./'') line then [2] else [])
                 @ (if startswith (lit ''.'') line then [1] else [])
                 @ (if startswith (lit ''/'') line then [1] else [])
                 @ [0]
      in first_some (map (\<lambda>p. match_tail (drop p line)) starts))"

text \<open>
  \<^verbatim>\<open>re.search(marker + r"\s*(.*)$", content)\<close>, group 1: the text behind the leftmost
  occurrence of the marker, without its leading whitespace.
\<close>

definition search_marker :: "pystr \<Rightarrow> pystr \<Rightarrow> pystr option" where
  "search_marker marker content =
     (case find marker content of
        None \<Rightarrow> None
      | Some i \<Rightarrow> Some (lstrip (drop (i + length marker) content)))"

definition comment_record :: "env \<Rightarrow> path \<Rightarrow> pystr \<Rightarrow> int \<Rightarrow> pystr \<Rightarrow> pystr \<Rightarrow> bool \<Rightarrow> pyval" where
  "comment_record e repo filepath lineno content comment_text yolo =
     PDict [(lit ''file'', PStr (path_str e (Join repo filepath))),
            (lit ''relative_path'', PStr filepath),
            (lit ''line'', PInt lineno),
            (lit ''raw'', PStr content),
            (lit ''comment'', PStr comment_text),
            (lit ''yolo'', PBool yolo)]"

text \<open>One turn of the loop: the record the line contributes, if any.\<close>

definition scan_line :: "env \<Rightarrow> path \<Rightarrow> pystr \<Rightarrow> pyval option" where
  "scan_line e repo line =
     (if line = [] then None
      else (case match_grep_line line of
              None \<Rightarrow> None
            | Some (filepath, digits, rest) \<Rightarrow>
                (let lineno = int (digits_value 0 digits);
                     content = strip rest;
                     rvwy_match = search_marker (lit ''RVWY:'') content;
                     rvw_match = search_marker (lit ''RVW:'') content
                 in case rvwy_match of
                      Some comment_text \<Rightarrow>
                        Some (comment_record e repo filepath lineno content comment_text True)
                    | None \<Rightarrow>
                        (case rvw_match of
                           Some comment_text \<Rightarrow>
                             Some (comment_record e repo filepath lineno content comment_text False)
                         | None \<Rightarrow> None))))"

primrec scan_lines :: "env \<Rightarrow> path \<Rightarrow> pystr list \<Rightarrow> pyval list" where
  "scan_lines e repo [] = []"
| "scan_lines e repo (line # rest) =
     (case scan_line e repo line of
        None \<Rightarrow> scan_lines e repo rest
      | Some c \<Rightarrow> c # scan_lines e repo rest)"




section \<open>Alias resolver\<close>

text \<open>
  The loop of \<^verbatim>\<open>parse_directory_map\<close> over the document's lines; \<open>in_table\<close> and the
  dictionary built so far are its state, and \<^verbatim>\<open>break\<close> returns the dictionary.
\<close>

fun parse_table_lines ::
  "bool \<Rightarrow> pystr list \<Rightarrow> (pystr \<rightharpoonup> path) \<Rightarrow> (pystr \<rightharpoonup> path)" where
  "parse_table_lines in_table [] aliases = aliases"
| "parse_table_lines in_table (line # rest) aliases =
     (if contains (lit ''| Alias |'') line then parse_table_lines True rest aliases
      else if in_table then
        (if startswith (lit ''|---'') line then parse_table_lines in_table rest aliases
         else if \<not> startswith (lit ''|'') line then aliases
         else
           (let parts = map strip (split_on (cp (CHR ''|'')) line)
            in if length parts \<ge> 3 then
                 (let alias = parts ! 1;
                      path = parts ! 2
                  in if alias \<noteq> [] \<and> path \<noteq> [] \<and> \<not> startswith (lit ''---'') alias
                     then parse_table_lines in_table rest (aliases(alias \<mapsto> Path path))
                     else parse_table_lines in_table rest aliases)
               else parse_table_lines in_table rest aliases))
      else parse_table_lines in_table rest aliases)"

declare parse_table_lines.simps [simp del]

definition parse_directory_map :: "env \<Rightarrow> (pystr \<rightharpoonup> path)" where
  "parse_directory_map e =
     (case directory_map_file e of
        None \<Rightarrow> Map.empty
      | Some content \<Rightarrow> parse_table_lines False (split_on newline content) Map.empty)"

text \<open>
  The tests of the loop body on their own, for a line met inside the table: the line at
  which the loop breaks, and the entry a line adds to the dictionary (none for the header
  row, a separator row, or a row the loop skips).
\<close>

definition ends_table :: "pystr \<Rightarrow> bool" where
  "ends_table line = (\<not> contains (lit ''| Alias |'') line \<and> \<not> startswith (lit ''|'') line)"

definition row_entry :: "pystr \<Rightarrow> (pystr \<times> path) option" where
  "row_entry line =
     (if contains (lit ''| Alias |'') line \<or> startswith (lit ''|---'') line \<or> \<not> startswith (lit ''|'') line
      then None
      else
        (let parts = map strip (split_on (cp (CHR ''|'')) line)
         in if length parts \<ge> 3 \<and> parts ! 1 \<noteq> [] \<and> parts ! 2 \<noteq> []
               \<and> \<not> startswith (lit ''---'') (parts ! 1)
            then Some (parts ! 1, Path (parts ! 2))
            else None))"

text \<open>The loop of \<^verbatim>\<open>get_active_task_repos\<close> over the lines of the frontmatter.\<close>

fun collect_repos :: "bool \<Rightarrow> pystr list \<Rightarrow> pystr list \<Rightarrow> pystr list" where
  "collect_repos in_repos [] repos = repos"
| "collect_repos in_repos (line # rest) repos =
     (if startswith (lit ''repositories:'') (strip line) then collect_repos True rest repos
      else if in_repos then
        (if startswith (lit ''-'') (strip line) then
           (let repo = strip (lstrip_char (cp (CHR ''-'')) (strip line));
                repo = (case split_on (cp (CHR ''#'')) repo of [] \<Rightarrow> [] | piece # _ \<Rightarrow> strip piece)
            in if repo \<noteq> [] then collect_repos in_repos rest (repos @ [repo])
               else collect_repos in_repos rest repos)
         else if strip line \<noteq> [] \<and> \<not> startswith (lit '' '') line then repos
         else collect_repos in_repos rest repos)
      else collect_repos in_repos rest repos)"

definition get_active_task_repos :: "env \<Rightarrow> pystr list" where
  "get_active_task_repos e =
     (case active_task_file e of
        None \<Rightarrow> []
      | Some pointer \<Rightarrow>
          (let task_name = strip pointer
           in case task_file e task_name of
                None \<Rightarrow> []
              | Some content \<Rightarrow>
                  if \<not> startswith (lit ''---'') content then []
                  else (case find_from (lit ''---'') 3 content of
                          None \<Rightarrow> []
                        | Some end_idx \<Rightarrow>
                            (let frontmatter = take (end_idx - 3) (drop 3 content)
                             in collect_repos False (split_on newline frontmatter) []))))"

text \<open>The part of \<^verbatim>\<open>resolve_repo\<close> behind the \<^verbatim>\<open>if alias:\<close> block.\<close>

definition active_task_or_cwd :: "env \<Rightarrow> (pystr \<rightharpoonup> path) \<Rightarrow> path" where
  "active_task_or_cwd e aliases =
     (case get_active_task_repos e of
        [] \<Rightarrow> Cwd
      | first_repo # _ \<Rightarrow>
          (case aliases first_repo of
             Some p \<Rightarrow> p
           | None \<Rightarrow> Cwd))"

definition resolve_repo :: "env \<Rightarrow> pystr option \<Rightarrow> error + path" where
  "resolve_repo e alias =
     (let aliases = parse_directory_map e
      in case alias of
           None \<Rightarrow> Inr (active_task_or_cwd e aliases)
         | Some a \<Rightarrow>
             if a = [] then Inr (active_task_or_cwd e aliases)
             else (case aliases a of
                     Some p \<Rightarrow> Inr p
                   | None \<Rightarrow>
                       (let path = Path a
                        in if path_exists e path then Inr (Resolve path)
                           else Inl (ValueError (lit ''Unknown repo alias: '' @ a)))))"


section \<open>Reading results, and a scripted environment\<close>

text \<open>
  The files a result record lists: the sequence under its \<^verbatim>\<open>files\<close> key; a record
  without that key lists none.
\<close>

definition files_of :: "dict \<Rightarrow> pyval list" where
  "files_of r = (case map_of r (lit ''files'') of Some (PList fs) \<Rightarrow> fs | _ \<Rightarrow> [])"

text \<open>
  A small environment to run the operations in: the version-control commands answer
  from a script, paths print as they were built, and none of the workspace documents
  exists.
\<close>

definition completed :: "int \<Rightarrow> pystr \<Rightarrow> pystr \<Rightarrow> CompletedProcess" where
  "completed rc out err = \<lparr>returncode = rc, stdout = out, stderr = err\<rparr>"

primrec path_text :: "path \<Rightarrow> pystr" where
  "path_text (Path s) = s"
| "path_text (Join p s) = path_text p @ lit ''/'' @ s"
| "path_text (Resolve p) = path_text p"
| "path_text Cwd = lit ''.''"

definition sample_env :: "(pystr list \<Rightarrow> CompletedProcess) \<Rightarrow> env" where
  "sample_env run =
     \<lparr>subprocess_run = (\<lambda>args cwd. run args),
      path_str = path_text,
      path_exists = (\<lambda>p. False),
      vscode_mode_file = None,
      directory_map_file = None,
      active_task_file = None,
      task_file = (\<lambda>name. None)\<rparr>"

definition world0 :: world where
  "world0 = \<lparr>state_dir_exists = False, vscode_commands_file = None, launched = []\<rparr>"

definition scripted_git :: "pystr list \<Rightarrow> CompletedProcess" where
  "scripted_git args =
     (if args = [lit ''git'', lit ''diff'', lit ''--name-only'', lit ''HEAD~0'']
        then completed 0 (lit ''a.py'' @ [newline]) []
      else if args = [lit ''git'', lit ''diff'', lit ''--name-only'', lit ''HEAD~1'']
        then completed 0 (lit ''a.py'' @ [newline] @ lit ''b.py'' @ [newline]) []
      else if args = [lit ''git'', lit ''merge-base'', lit ''HEAD'', lit ''main'']
        then completed 0 (lit ''0123456789abcdef0123456789abcdef01234567'' @ [newline]) []
      else if args = [lit ''git'', lit ''diff'', lit ''--name-only'', lit ''0123456789abcdef0123456789abcdef01234567'']
        then completed 0 [] []
      else if args = [lit ''git'', lit ''rev-list'', lit ''--count'', lit ''0123456789abcdef0123456789abcdef01234567..HEAD'']
        then completed 0 (lit ''3'' @ [newline]) []
      else if args = [lit ''git'', lit ''merge-base'', lit ''HEAD'', lit ''dev'']
        then completed 0 (lit ''89abcdef0123456789abcdef0123456789abcdef'' @ [newline]) []
      else if args = [lit ''git'', lit ''diff'', lit ''--name-only'', lit ''89abcdef0123456789abcdef0123456789abcdef'']
        then completed 0 (lit ''src/x.c'' @ [newline]) []
      else if args = [lit ''git'', lit ''merge-base'', lit ''HEAD'', lit ''feature'']
        then completed 0 (lit ''fedcba9876543210fedcba9876543210fedcba98'' @ [newline]) []
      else if args = [lit ''git'', lit ''diff'', lit ''--name-only'', lit ''fedcba9876543210fedcba9876543210fedcba98'']
        then completed 0 (lit ''lib/y.py'' @ [newline]) []
      else if args = [lit ''git'', lit ''rev-list'', lit ''--count'', lit ''fedcba9876543210fedcba9876543210fedcba98..HEAD'']
        then completed 0 (lit ''2'' @ [newline]) []
      else if args = [lit ''git'', lit ''branch'', lit ''--show-current'']
        then completed 129 [] (lit ''error: unknown option `show-current'' @ [cp (CHR 0x27), newline])
      else completed 128 [] (lit ''fatal: bad revision'' @ [newline]))"

text \<open>The same script on a checkout whose branch lookup succeeds.\<close>

definition scripted_git_on_branch :: "pystr list \<Rightarrow> CompletedProcess" where
  "scripted_git_on_branch args =
     (if args = [lit ''git'', lit ''branch'', lit ''--show-current'']
        then completed 0 (lit ''topic'' @ [newline]) []
      else scripted_git args)"




text \<open>
  An environment with an alias table that names \<^verbatim>\<open>iree\<close> twice, an active task that
  lists two repositories, and one existing directory that is in no table.
\<close>

definition directory_map_doc :: pystr where
  "directory_map_doc =
     lit ''# Directory map'' @ [newline]
     @ [newline]
     @ lit ''| Alias | Path | Notes |'' @ [newline]
     @ lit ''|-------|------|-------|'' @ [newline]
     @ lit ''| iree | /work/iree | main checkout |'' @ [newline]
     @ lit ''| llvm | /work/llvm | |'' @ [newline]
     @ lit ''| iree | /work/iree-2 | second clone |'' @ [newline]
     @ [newline]
     @ lit ''| late | /work/late | after the table |'' @ [newline]"

definition task_doc :: pystr where
  "task_doc =
     lit ''---'' @ [newline]
     @ lit ''title: fix the bug'' @ [newline]
     @ lit ''repositories:'' @ [newline]
     @ lit ''  - llvm  # compiler'' @ [newline]
     @ lit ''  - iree'' @ [newline]
     @ lit ''status: open'' @ [newline]
     @ lit ''---'' @ [newline]
     @ lit ''Body.'' @ [newline]"

definition alias_env :: env where
  "alias_env =
     \<lparr>subprocess_run = (\<lambda>args cwd. completed 1 [] []),
      path_str = path_text,
      path_exists = (\<lambda>p. p = Path (lit ''/tmp/checkout'')),
      vscode_mode_file = None,
      directory_map_file = Some directory_map_doc,
      active_task_file = Some (lit ''fix-bug'' @ [newline]),
      task_file = (\<lambda>name. if name = lit ''fix-bug'' then Some task_doc else None)\<rparr>"

section \<open>Properties\<close>

subsection \<open>Evaluation rules and the branches of the strategies\<close>

lemma cp_eq [simp]: "cp a = cp b \<longleftrightarrow> a = b"
  unfolding cp_def by (metis char_of_char)

lemma lit_eq [simp]: "lit a = lit b \<longleftrightarrow> a = b"
  unfolding lit_def by (simp add: inj_map_eq_map inj_on_def)

lemma lit_Nil [simp]: "lit s = [] \<longleftrightarrow> s = []" "[] = lit s \<longleftrightarrow> s = []"
  by (auto simp add: lit_def)

lemma lit_append [simp]: "lit a @ lit b = lit (a @ b)"
  by (simp add: lit_def)

lemmas text_eval = lit_def cp_def strip_def lstrip_def rstrip_def isspace_def whitespace_chars_def
  newline_def nonempty_lines_def

lemma decimal_value_low:
  "c < 0x660 \<Longrightarrow>
   decimal_value c = (if 0x30 \<le> c \<and> c < 0x3A then Some (c - 0x30) else None)"
  by (simp add: decimal_value_def decimal_bases_def)

lemmas digit_eval = isdigit_def digit_val_def decimal_value_low
lemmas sample_eval = sample_env_def scripted_git_def scripted_git_on_branch_def completed_def
  world0_def git_def
  branch_or_unknown_def commit_count_of_def open_in_vscode_def get_vscode_mode_def

lemma str_int_small: "str_int 0 = lit ''0''" "str_int 1 = lit ''1''" "str_int 5 = lit ''5''" "str_int (- 2) = lit ''-2''"
  by (simp_all add: str_int_def str_nat.simps digit_char_def lit_def cp_def)

lemma cmd_incremental_error:
  "returncode (git e [lit ''diff'', lit ''--name-only'', lit ''HEAD~'' @ str_int n] repo) \<noteq> 0 \<Longrightarrow>
   cmd_incremental e w repo n =
     ([(lit ''status'', PStr (lit ''error'')),
       (lit ''error'', PStr (strip (stderr (git e [lit ''diff'', lit ''--name-only'', lit ''HEAD~'' @ str_int n] repo)))),
       (lit ''repo'', PStr (path_str e repo))], w)"
  by (simp add: cmd_incremental_def Let_def)

lemma cmd_incremental_nothing:
  "returncode (git e [lit ''diff'', lit ''--name-only'', lit ''HEAD~'' @ str_int n] repo) = 0 \<Longrightarrow>
   nonempty_lines (stdout (git e [lit ''diff'', lit ''--name-only'', lit ''HEAD~'' @ str_int n] repo)) = [] \<Longrightarrow>
   cmd_incremental e w repo n =
     ([(lit ''status'', PStr (lit ''nothing_to_review'')),
       (lit ''base'', PStr (lit ''HEAD~'' @ str_int n)),
       (lit ''repo'', PStr (path_str e repo))], w)"
  by (simp add: cmd_incremental_def Let_def)

lemma cmd_incremental_staged:
  "returncode (git e [lit ''diff'', lit ''--name-only'', lit ''HEAD~'' @ str_int n] repo) = 0 \<Longrightarrow>
   nonempty_lines (stdout (git e [lit ''diff'', lit ''--name-only'', lit ''HEAD~'' @ str_int n] repo)) = files \<Longrightarrow>
   files \<noteq> [] \<Longrightarrow>
   cmd_incremental e w repo n =
     ([(lit ''status'', PStr (lit ''staged'')),
       (lit ''mode'', PStr (get_vscode_mode e)),
       (lit ''repo'', PStr (path_str e repo)),
       (lit ''branch'', PStr (branch_or_unknown (git e [lit ''branch'', lit ''--show-current''] repo))),
       (lit ''base'', PStr (lit ''HEAD~'' @ str_int n)),
       (lit ''head'', PStr (lit ''HEAD'')),
       (lit ''files'', PList (map PStr files)),
       (lit ''file_count'', PInt (int (length files)))],
      open_in_vscode e w (map (\<lambda>f. path_str e (Join repo f)) files) True)"
  by (simp add: cmd_incremental_def Let_def)

lemma cmd_milestone_error:
  "returncode (git e [lit ''merge-base'', lit ''HEAD'', branch] repo) \<noteq> 0 \<Longrightarrow>
   cmd_milestone e w repo branch =
     (Inr [(lit ''status'', PStr (lit ''error'')),
           (lit ''error'', PStr (lit ''Could not find merge base with '' @ branch)),
           (lit ''repo'', PStr (path_str e repo))], w)"
  by (simp add: cmd_milestone_def Let_def)

lemma cmd_milestone_raise:
  "returncode (git e [lit ''merge-base'', lit ''HEAD'', branch] repo) = 0 \<Longrightarrow>
   mb = strip (stdout (git e [lit ''merge-base'', lit ''HEAD'', branch] repo)) \<Longrightarrow>
   commit_count_of (git e [lit ''rev-list'', lit ''--count'', mb @ lit ''..HEAD''] repo) = Inl err \<Longrightarrow>
   cmd_milestone e w repo branch = (Inl err, w)"
  by (simp add: cmd_milestone_def Let_def)

lemma cmd_milestone_nothing:
  "returncode (git e [lit ''merge-base'', lit ''HEAD'', branch] repo) = 0 \<Longrightarrow>
   mb = strip (stdout (git e [lit ''merge-base'', lit ''HEAD'', branch] repo)) \<Longrightarrow>
   commit_count_of (git e [lit ''rev-list'', lit ''--count'', mb @ lit ''..HEAD''] repo) = Inr c \<Longrightarrow>
   nonempty_lines (stdout (git e [lit ''diff'', lit ''--name-only'', mb] repo)) = [] \<Longrightarrow>
   cmd_milestone e w repo branch =
     (Inr [(lit ''status'', PStr (lit ''nothing_to_review'')),
           (lit ''base'', PStr branch),
           (lit ''merge_base'', PStr (take 8 mb)),
           (lit ''repo'', PStr (path_str e repo))], w)"
  by (simp add: cmd_milestone_def Let_def)

lemma cmd_milestone_staged:
  "returncode (git e [lit ''merge-base'', lit ''HEAD'', branch] repo) = 0 \<Longrightarrow>
   mb = strip (stdout (git e [lit ''merge-base'', lit ''HEAD'', branch] repo)) \<Longrightarrow>
   commit_count_of (git e [lit ''rev-list'', lit ''--count'', mb @ lit ''..HEAD''] repo) = Inr c \<Longrightarrow>
   nonempty_lines (stdout (git e [lit ''diff'', lit ''--name-only'', mb] repo)) = files \<Longrightarrow>
   files \<noteq> [] \<Longrightarrow>
   cmd_milestone e w repo branch =
     (Inr [(lit ''status'', PStr (lit ''staged'')),
           (lit ''mode'', PStr (get_vscode_mode e)),
           (lit ''repo'', PStr (path_str e repo)),
           (lit ''branch'', PStr (branch_or_unknown (git e [lit ''branch'', lit ''--show-current''] repo))),
           (lit ''base'', PStr branch),
           (lit ''merge_base'', PStr (take 8 mb)),
           (lit ''files'', PList (map PStr files)),
           (lit ''file_count'', PInt (int (length files))),
           (lit ''commit_count'', PInt c)],
      open_in_vscode e w (map (\<lambda>f. path_str e (Join repo f)) files) True)"
  by (simp add: cmd_milestone_def Let_def)


subsection \<open>Editor dispatch\<close>

text \<open>
  Claim C7. Dispatching an empty file list is a no-op: whatever the delivery mode
  file says, the state directory, the remote command descriptor and the list of
  launched editor processes are exactly what they were before the call.
\<close>

theorem open_in_vscode_empty_noop:
  "open_in_vscode e w [] new_window = w"
  by (simp add: open_in_vscode_def)


subsection \<open>Failures of the version-control commands\<close>

text \<open>
  Claim C1, as the claim states it, fails: when the merge-base command of the
  milestone strategy fails, the result's error text is the fixed sentence
  ``Could not find merge base with <branch>'', not what the adapter wrote to its error
  stream; and a failing branch lookup inside the incremental strategy leaves the status
  \<^verbatim>\<open>staged\<close>.
\<close>

theorem milestone_error_text_not_stderr:
  "fst (cmd_milestone (sample_env scripted_git) world0 (Path (lit ''/r'')) (lit ''topic''))
     = Inr [(lit ''status'', PStr (lit ''error'')),
            (lit ''error'', PStr (lit ''Could not find merge base with topic'')),
            (lit ''repo'', PStr (lit ''/r''))]
   \<and> returncode (git (sample_env scripted_git) [lit ''merge-base'', lit ''HEAD'', lit ''topic''] (Path (lit ''/r''))) = 128
   \<and> strip (stderr (git (sample_env scripted_git) [lit ''merge-base'', lit ''HEAD'', lit ''topic''] (Path (lit ''/r''))))
       = lit ''fatal: bad revision''
   \<and> returncode (git (sample_env scripted_git) [lit ''branch'', lit ''--show-current''] (Path (lit ''/r''))) = 129
   \<and> map_of (fst (cmd_incremental (sample_env scripted_git) world0 (Path (lit ''/r'')) 1)) (lit ''status'')
       = Some (PStr (lit ''staged''))"
  by (simp add: cmd_milestone_def cmd_incremental_def sample_eval text_eval str_int_small Let_def)

text \<open>
  Claim C1, amended. A failing diff command of the incremental strategy gives the
  record \<^verbatim>\<open>status=error\<close> with the command's error stream, trimmed, and leaves the
  world as it was. A failing merge-base command of the milestone strategy gives
  \<^verbatim>\<open>status=error\<close> with the fixed sentence naming the branch, and leaves the world as
  it was. The two other lookups never give an error, each on its own. Where the diff
  command succeeded and listed files, a failing branch lookup gives the branch name
  \<^verbatim>\<open>unknown\<close> in the \<^verbatim>\<open>staged\<close> record of either strategy, whatever the commit count
  is; and a failing commit count gives \<^verbatim>\<open>commit_count = 0\<close> in the \<^verbatim>\<open>staged\<close> record
  of the milestone strategy, whatever the branch lookup gave. No case raises.
\<close>

theorem vcs_failure_results:
  "(returncode (git e [lit ''diff'', lit ''--name-only'', lit ''HEAD~'' @ str_int n] repo) \<noteq> 0 \<longrightarrow>
      cmd_incremental e w repo n =
        ([(lit ''status'', PStr (lit ''error'')),
          (lit ''error'', PStr (strip (stderr (git e [lit ''diff'', lit ''--name-only'', lit ''HEAD~'' @ str_int n] repo)))),
          (lit ''repo'', PStr (path_str e repo))], w))
   \<and> (returncode (git e [lit ''merge-base'', lit ''HEAD'', branch] repo) \<noteq> 0 \<longrightarrow>
      cmd_milestone e w repo branch =
        (Inr [(lit ''status'', PStr (lit ''error'')),
              (lit ''error'', PStr (lit ''Could not find merge base with '' @ branch)),
              (lit ''repo'', PStr (path_str e repo))], w))
   \<and> (returncode (git e [lit ''diff'', lit ''--name-only'', lit ''HEAD~'' @ str_int n] repo) = 0
       \<and> nonempty_lines (stdout (git e [lit ''diff'', lit ''--name-only'', lit ''HEAD~'' @ str_int n] repo)) = files
       \<and> files \<noteq> []
       \<and> returncode (git e [lit ''branch'', lit ''--show-current''] repo) \<noteq> 0 \<longrightarrow>
      cmd_incremental e w repo n =
        ([(lit ''status'', PStr (lit ''staged'')),
          (lit ''mode'', PStr (get_vscode_mode e)),
          (lit ''repo'', PStr (path_str e repo)),
          (lit ''branch'', PStr (lit ''unknown'')),
          (lit ''base'', PStr (lit ''HEAD~'' @ str_int n)),
          (lit ''head'', PStr (lit ''HEAD'')),
          (lit ''files'', PList (map PStr files)),
          (lit ''file_count'', PInt (int (length files)))],
         open_in_vscode e w (map (\<lambda>f. path_str e (Join repo f)) files) True))
   \<and> (returncode (git e [lit ''merge-base'', lit ''HEAD'', branch] repo) = 0
       \<and> strip (stdout (git e [lit ''merge-base'', lit ''HEAD'', branch] repo)) = mb
       \<and> returncode (git e [lit ''diff'', lit ''--name-only'', mb] repo) = 0
       \<and> nonempty_lines (stdout (git e [lit ''diff'', lit ''--name-only'', mb] repo)) = changed
       \<and> changed \<noteq> []
       \<and> commit_count_of (git e [lit ''rev-list'', lit ''--count'', mb @ lit ''..HEAD''] repo) = Inr c
       \<and> returncode (git e [lit ''branch'', lit ''--show-current''] repo) \<noteq> 0 \<longrightarrow>
      cmd_milestone e w repo branch =
        (Inr [(lit ''status'', PStr (lit ''staged'')),
              (lit ''mode'', PStr (get_vscode_mode e)),
              (lit ''repo'', PStr (path_str e repo)),
              (lit ''branch'', PStr (lit ''unknown'')),
              (lit ''base'', PStr branch),
              (lit ''merge_base'', PStr (take 8 mb)),
              (lit ''files'', PList (map PStr changed)),
              (lit ''file_count'', PInt (int (length changed))),
              (lit ''commit_count'', PInt c)],
         open_in_vscode e w (map (\<lambda>f. path_str e (Join repo f)) changed) True))
   \<and> (returncode (git e [lit ''merge-base'', lit ''HEAD'', branch] repo) = 0
       \<and> strip (stdout (git e [lit ''merge-base'', lit ''HEAD'', branch] repo)) = mb
       \<and> returncode (git e [lit ''diff'', lit ''--name-only'', mb] repo) = 0
       \<and> nonempty_lines (stdout (git e [lit ''diff'', lit ''--name-only'', mb] repo)) = changed
       \<and> changed \<noteq> []
       \<and> returncode (git e [lit ''rev-list'', lit ''--count'', mb @ lit ''..HEAD''] repo) \<noteq> 0 \<longrightarrow>
      cmd_milestone e w repo branch =
        (Inr [(lit ''status'', PStr (lit ''staged'')),
              (lit ''mode'', PStr (get_vscode_mode e)),
              (lit ''repo'', PStr (path_str e repo)),
              (lit ''branch'',
                 PStr (if returncode (git e [lit ''branch'', lit ''--show-current''] repo) = 0
                       then strip (stdout (git e [lit ''branch'', lit ''--show-current''] repo))
                       else lit ''unknown'')),
              (lit ''base'', PStr branch),
              (lit ''merge_base'', PStr (take 8 mb)),
              (lit ''files'', PList (map PStr changed)),
              (lit ''file_count'', PInt (int (length changed))),
              (lit ''commit_count'', PInt 0)],
         open_in_vscode e w (map (\<lambda>f. path_str e (Join repo f)) changed) True))"
proof (intro conjI)
  show "returncode (git e [lit ''diff'', lit ''--name-only'', lit ''HEAD~'' @ str_int n] repo) \<noteq> 0 \<longrightarrow>
      cmd_incremental e w repo n =
        ([(lit ''status'', PStr (lit ''error'')),
          (lit ''error'', PStr (strip (stderr (git e [lit ''diff'', lit ''--name-only'', lit ''HEAD~'' @ str_int n] repo)))),
          (lit ''repo'', PStr (path_str e repo))], w)"
    by (simp add: cmd_incremental_error)
  show "returncode (git e [lit ''merge-base'', lit ''HEAD'', branch] repo) \<noteq> 0 \<longrightarrow>
      cmd_milestone e w repo branch =
        (Inr [(lit ''status'', PStr (lit ''error'')),
              (lit ''error'', PStr (lit ''Could not find merge base with '' @ branch)),
              (lit ''repo'', PStr (path_str e repo))], w)"
    by (simp add: cmd_milestone_error)
  show "returncode (git e [lit ''diff'', lit ''--name-only'', lit ''HEAD~'' @ str_int n] repo) = 0
       \<and> nonempty_lines (stdout (git e [lit ''diff'', lit ''--name-only'', lit ''HEAD~'' @ str_int n] repo)) = files
       \<and> files \<noteq> []
       \<and> returncode (git e [lit ''branch'', lit ''--show-current''] repo) \<noteq> 0 \<longrightarrow>
      cmd_incremental e w repo n =
        ([(lit ''status'', PStr (lit ''staged'')),
          (lit ''mode'', PStr (get_vscode_mode e)),
          (lit ''repo'', PStr (path_str e repo)),
          (lit ''branch'', PStr (lit ''unknown'')),
          (lit ''base'', PStr (lit ''HEAD~'' @ str_int n)),
          (lit ''head'', PStr (lit ''HEAD'')),
          (lit ''files'', PList (map PStr files)),
          (lit ''file_count'', PInt (int (length files)))],
         open_in_vscode e w (map (\<lambda>f. path_str e (Join repo f)) files) True)"
    by (auto simp add: cmd_incremental_staged branch_or_unknown_def)
  show "returncode (git e [lit ''merge-base'', lit ''HEAD'', branch] repo) = 0
       \<and> strip (stdout (git e [lit ''merge-base'', lit ''HEAD'', branch] repo)) = mb
       \<and> returncode (git e [lit ''diff'', lit ''--name-only'', mb] repo) = 0
       \<and> nonempty_lines (stdout (git e [lit ''diff'', lit ''--name-only'', mb] repo)) = changed
       \<and> changed \<noteq> []
       \<and> commit_count_of (git e [lit ''rev-list'', lit ''--count'', mb @ lit ''..HEAD''] repo) = Inr c
       \<and> returncode (git e [lit ''branch'', lit ''--show-current''] repo) \<noteq> 0 \<longrightarrow>
      cmd_milestone e w repo branch =
        (Inr [(lit ''status'', PStr (lit ''staged'')),
              (lit ''mode'', PStr (get_vscode_mode e)),
              (lit ''repo'', PStr (path_str e repo)),
              (lit ''branch'', PStr (lit ''unknown'')),
              (lit ''base'', PStr branch),
              (lit ''merge_base'', PStr (take 8 mb)),
              (lit ''files'', PList (map PStr changed)),
              (lit ''file_count'', PInt (int (length changed))),
              (lit ''commit_count'', PInt c)],
         open_in_vscode e w (map (\<lambda>f. path_str e (Join repo f)) changed) True)"
    by (auto simp add: cmd_milestone_staged [where mb = mb and c = c] branch_or_unknown_def)
  show "returncode (git e [lit ''merge-base'', lit ''HEAD'', branch] repo) = 0
       \<and> strip (stdout (git e [lit ''merge-base'', lit ''HEAD'', branch] repo)) = mb
       \<and> returncode (git e [lit ''diff'', lit ''--name-only'', mb] repo) = 0
       \<and> nonempty_lines (stdout (git e [lit ''diff'', lit ''--name-only'', mb] repo)) = changed
       \<and> changed \<noteq> []
       \<and> returncode (git e [lit ''rev-list'', lit ''--count'', mb @ lit ''..HEAD''] repo) \<noteq> 0 \<longrightarrow>
      cmd_milestone e w repo branch =
        (Inr [(lit ''status'', PStr (lit ''staged'')),
              (lit ''mode'', PStr (get_vscode_mode e)),
              (lit ''repo'', PStr (path_str e repo)),
              (lit ''branch'',
                 PStr (if returncode (git e [lit ''branch'', lit ''--show-current''] repo) = 0
                       then strip (stdout (git e [lit ''branch'', lit ''--show-current''] repo))
                       else lit ''unknown'')),
              (lit ''base'', PStr branch),
              (lit ''merge_base'', PStr (take 8 mb)),
              (lit ''files'', PList (map PStr changed)),
              (lit ''file_count'', PInt (int (length changed))),
              (lit ''commit_count'', PInt 0)],
         open_in_vscode e w (map (\<lambda>f. path_str e (Join repo f)) changed) True)"
  proof
    assume a: "returncode (git e [lit ''merge-base'', lit ''HEAD'', branch] repo) = 0
       \<and> strip (stdout (git e [lit ''merge-base'', lit ''HEAD'', branch] repo)) = mb
       \<and> returncode (git e [lit ''diff'', lit ''--name-only'', mb] repo) = 0
       \<and> nonempty_lines (stdout (git e [lit ''diff'', lit ''--name-only'', mb] repo)) = changed
       \<and> changed \<noteq> []
       \<and> returncode (git e [lit ''rev-list'', lit ''--count'', mb @ lit ''..HEAD''] repo) \<noteq> 0"
    then have c0: "commit_count_of (git e [lit ''rev-list'', lit ''--count'', mb @ lit ''..HEAD''] repo) = Inr 0"
      by (simp add: commit_count_of_def)
    from a c0 show "cmd_milestone e w repo branch =
        (Inr [(lit ''status'', PStr (lit ''staged'')),
              (lit ''mode'', PStr (get_vscode_mode e)),
              (lit ''repo'', PStr (path_str e repo)),
              (lit ''branch'',
                 PStr (if returncode (git e [lit ''branch'', lit ''--show-current''] repo) = 0
                       then strip (stdout (git e [lit ''branch'', lit ''--show-current''] repo))
                       else lit ''unknown'')),
              (lit ''base'', PStr branch),
              (lit ''merge_base'', PStr (take 8 mb)),
              (lit ''files'', PList (map PStr changed)),
              (lit ''file_count'', PInt (int (length changed))),
              (lit ''commit_count'', PInt 0)],
         open_in_vscode e w (map (\<lambda>f. path_str e (Join repo f)) changed) True)"
      by (auto simp add: cmd_milestone_staged [where mb = mb and c = 0] branch_or_unknown_def)
  qed
qed

theorem vcs_failure_results_witness:
  "cmd_incremental (sample_env scripted_git) world0 (Path (lit ''/r'')) 5 =
     ([(lit ''status'', PStr (lit ''error'')),
       (lit ''error'', PStr (lit ''fatal: bad revision'')),
       (lit ''repo'', PStr (lit ''/r''))], world0)
   \<and> cmd_milestone (sample_env scripted_git) world0 (Path (lit ''/r'')) (lit ''topic'') =
     (Inr [(lit ''status'', PStr (lit ''error'')),
           (lit ''error'', PStr (lit ''Could not find merge base with topic'')),
           (lit ''repo'', PStr (lit ''/r''))], world0)
   \<and> fst (cmd_incremental (sample_env scripted_git) world0 (Path (lit ''/r'')) 1) =
     [(lit ''status'', PStr (lit ''staged'')),
      (lit ''mode'', PStr (lit ''remote'')),
      (lit ''repo'', PStr (lit ''/r'')),
      (lit ''branch'', PStr (lit ''unknown'')),
      (lit ''base'', PStr (lit ''HEAD~1'')),
      (lit ''head'', PStr (lit ''HEAD'')),
      (lit ''files'', PList [PStr (lit ''a.py''), PStr (lit ''b.py'')]),
      (lit ''file_count'', PInt 2)]
   \<and> fst (cmd_milestone (sample_env scripted_git) world0 (Path (lit ''/r'')) (lit ''feature'')) =
     Inr [(lit ''status'', PStr (lit ''staged'')),
          (lit ''mode'', PStr (lit ''remote'')),
          (lit ''repo'', PStr (lit ''/r'')),
          (lit ''branch'', PStr (lit ''unknown'')),
          (lit ''base'', PStr (lit ''feature'')),
          (lit ''merge_base'', PStr (lit ''fedcba98'')),
          (lit ''files'', PList [PStr (lit ''lib/y.py'')]),
          (lit ''file_count'', PInt 1),
          (lit ''commit_count'', PInt 2)]
   \<and> fst (cmd_milestone (sample_env scripted_git_on_branch) world0 (Path (lit ''/r'')) (lit ''dev'')) =
     Inr [(lit ''status'', PStr (lit ''staged'')),
          (lit ''mode'', PStr (lit ''remote'')),
          (lit ''repo'', PStr (lit ''/r'')),
          (lit ''branch'', PStr (lit ''topic'')),
          (lit ''base'', PStr (lit ''dev'')),
          (lit ''merge_base'', PStr (lit ''89abcdef'')),
          (lit ''files'', PList [PStr (lit ''src/x.c'')]),
          (lit ''file_count'', PInt 1),
          (lit ''commit_count'', PInt 0)]"
proof -
  note a = vcs_failure_results [where e = "sample_env scripted_git" and w = world0
      and repo = "Path (lit ''/r'')" and n = 5 and branch = "lit ''topic''"]
  note b = vcs_failure_results [where e = "sample_env scripted_git" and w = world0
      and repo = "Path (lit ''/r'')" and n = 1 and branch = "lit ''feature''"
      and files = "[lit ''a.py'', lit ''b.py'']"
      and mb = "lit ''fedcba9876543210fedcba9876543210fedcba98''"
      and changed = "[lit ''lib/y.py'']" and c = 2]
  note d = vcs_failure_results [where e = "sample_env scripted_git_on_branch" and w = world0
      and repo = "Path (lit ''/r'')" and branch = "lit ''dev''"
      and mb = "lit ''89abcdef0123456789abcdef0123456789abcdef''"
      and changed = "[lit ''src/x.c'']"]
  have 1: "cmd_incremental (sample_env scripted_git) world0 (Path (lit ''/r'')) 5 =
     ([(lit ''status'', PStr (lit ''error'')),
       (lit ''error'', PStr (lit ''fatal: bad revision'')),
       (lit ''repo'', PStr (lit ''/r''))], world0)"
    using a by (simp add: sample_eval text_eval str_int_small)
  have 2: "cmd_milestone (sample_env scripted_git) world0 (Path (lit ''/r'')) (lit ''topic'') =
     (Inr [(lit ''status'', PStr (lit ''error'')),
           (lit ''error'', PStr (lit ''Could not find merge base with topic'')),
           (lit ''repo'', PStr (lit ''/r''))], world0)"
    using a by (simp add: sample_eval text_eval str_int_small)
  have 3: "fst (cmd_incremental (sample_env scripted_git) world0 (Path (lit ''/r'')) 1) =
     [(lit ''status'', PStr (lit ''staged'')),
      (lit ''mode'', PStr (lit ''remote'')),
      (lit ''repo'', PStr (lit ''/r'')),
      (lit ''branch'', PStr (lit ''unknown'')),
      (lit ''base'', PStr (lit ''HEAD~1'')),
      (lit ''head'', PStr (lit ''HEAD'')),
      (lit ''files'', PList [PStr (lit ''a.py''), PStr (lit ''b.py'')]),
      (lit ''file_count'', PInt 2)]"
    using b by (simp add: sample_eval text_eval str_int_small)
  have 4: "fst (cmd_milestone (sample_env scripted_git) world0 (Path (lit ''/r'')) (lit ''feature'')) =
     Inr [(lit ''status'', PStr (lit ''staged'')),
          (lit ''mode'', PStr (lit ''remote'')),
          (lit ''repo'', PStr (lit ''/r'')),
          (lit ''branch'', PStr (lit ''unknown'')),
          (lit ''base'', PStr (lit ''feature'')),
          (lit ''merge_base'', PStr (lit ''fedcba98'')),
          (lit ''files'', PList [PStr (lit ''lib/y.py'')]),
          (lit ''file_count'', PInt 1),
          (lit ''commit_count'', PInt 2)]"
    using b by (simp add: sample_eval text_eval str_int_small py_int_def int_literal_ok_def
        digit_eval startswith_def contains_def)
  have 5: "fst (cmd_milestone (sample_env scripted_git_on_branch) world0 (Path (lit ''/r'')) (lit ''dev'')) =
     Inr [(lit ''status'', PStr (lit ''staged'')),
          (lit ''mode'', PStr (lit ''remote'')),
          (lit ''repo'', PStr (lit ''/r'')),
          (lit ''branch'', PStr (lit ''topic'')),
          (lit ''base'', PStr (lit ''dev'')),
          (lit ''merge_base'', PStr (lit ''89abcdef'')),
          (lit ''files'', PList [PStr (lit ''src/x.c'')]),
          (lit ''file_count'', PInt 1),
          (lit ''commit_count'', PInt 0)]"
    using d by (simp add: sample_eval text_eval)
  from 1 2 3 4 5 show ?thesis by blast
qed


subsection \<open>The range of the incremental strategy\<close>

text \<open>
  Claim C3, as the claim states it, fails: with \<open>N = 0\<close> the incremental strategy
  raises nothing and rejects nothing. It asks the diff command for \<^verbatim>\<open>HEAD~0\<close>, and
  where that command lists a file the result is \<^verbatim>\<open>staged\<close> and the file has gone to
  the editor's command descriptor.
\<close>

theorem incremental_zero_is_staged:
  "cmd_incremental (sample_env scripted_git) world0 (Path (lit ''/r'')) 0 =
     ([(lit ''status'', PStr (lit ''staged'')),
       (lit ''mode'', PStr (lit ''remote'')),
       (lit ''repo'', PStr (lit ''/r'')),
       (lit ''branch'', PStr (lit ''unknown'')),
       (lit ''base'', PStr (lit ''HEAD~0'')),
       (lit ''head'', PStr (lit ''HEAD'')),
       (lit ''files'', PList [PStr (lit ''a.py'')]),
       (lit ''file_count'', PInt 1)],
      \<lparr>state_dir_exists = True,
       vscode_commands_file = Some (lit ''code --new-window /r/a.py'' @ [newline]),
       launched = []\<rparr>)"
  by (simp add: cmd_incremental_def sample_eval text_eval str_int_small Let_def)

text \<open>
  Claim C3, amended. For every integer \<open>N\<close>, the ones below 1 included, the
  incremental strategy checks no range: it passes \<^verbatim>\<open>HEAD~N\<close> to the diff command.
  When that command fails the result is \<^verbatim>\<open>status=error\<close> with the command's trimmed
  error stream, and when it lists no file the result is \<^verbatim>\<open>nothing_to_review\<close> with
  base \<^verbatim>\<open>HEAD~N\<close>; the world is untouched in both cases. Otherwise the result is
  \<^verbatim>\<open>staged\<close> with base \<^verbatim>\<open>HEAD~N\<close> and the listed files, and their paths have gone
  to the editor: launched as \<^verbatim>\<open>code --new-window <paths>\<close> in local mode, written as
  one line into the command descriptor, with the state directory made, otherwise.
\<close>

theorem incremental_checks_no_range:
  "(returncode (git e [lit ''diff'', lit ''--name-only'', lit ''HEAD~'' @ str_int n] repo) \<noteq> 0 \<longrightarrow>
      cmd_incremental e w repo n =
        ([(lit ''status'', PStr (lit ''error'')),
          (lit ''error'', PStr (strip (stderr (git e [lit ''diff'', lit ''--name-only'', lit ''HEAD~'' @ str_int n] repo)))),
          (lit ''repo'', PStr (path_str e repo))], w))
   \<and> (returncode (git e [lit ''diff'', lit ''--name-only'', lit ''HEAD~'' @ str_int n] repo) = 0
       \<and> nonempty_lines (stdout (git e [lit ''diff'', lit ''--name-only'', lit ''HEAD~'' @ str_int n] repo)) = [] \<longrightarrow>
      cmd_incremental e w repo n =
        ([(lit ''status'', PStr (lit ''nothing_to_review'')),
          (lit ''base'', PStr (lit ''HEAD~'' @ str_int n)),
          (lit ''repo'', PStr (path_str e repo))], w))
   \<and> (returncode (git e [lit ''diff'', lit ''--name-only'', lit ''HEAD~'' @ str_int n] repo) = 0
       \<and> nonempty_lines (stdout (git e [lit ''diff'', lit ''--name-only'', lit ''HEAD~'' @ str_int n] repo)) = files
       \<and> files \<noteq> [] \<longrightarrow>
      fst (cmd_incremental e w repo n) =
        [(lit ''status'', PStr (lit ''staged'')),
         (lit ''mode'', PStr (get_vscode_mode e)),
         (lit ''repo'', PStr (path_str e repo)),
         (lit ''branch'',
            PStr (if returncode (git e [lit ''branch'', lit ''--show-current''] repo) = 0
                  then strip (stdout (git e [lit ''branch'', lit ''--show-current''] repo))
                  else lit ''unknown'')),
         (lit ''base'', PStr (lit ''HEAD~'' @ str_int n)),
         (lit ''head'', PStr (lit ''HEAD'')),
         (lit ''files'', PList (map PStr files)),
         (lit ''file_count'', PInt (int (length files)))]
      \<and> snd (cmd_incremental e w repo n) =
          open_in_vscode e w (map (\<lambda>f. path_str e (Join repo f)) files) True
      \<and> (get_vscode_mode e = lit ''local'' \<longrightarrow>
           snd (cmd_incremental e w repo n) =
             w\<lparr>launched := launched w
                  @ [[lit ''code'', lit ''--new-window''] @ map (\<lambda>f. path_str e (Join repo f)) files]\<rparr>)
      \<and> (get_vscode_mode e \<noteq> lit ''local'' \<longrightarrow>
           snd (cmd_incremental e w repo n) =
             w\<lparr>state_dir_exists := True,
                vscode_commands_file :=
                  Some (join (lit '' '')
                          ([lit ''code'', lit ''--new-window'']
                           @ map (\<lambda>f. path_str e (Join repo f)) files)
                        @ [newline])\<rparr>))"
proof (intro conjI)
  show "returncode (git e [lit ''diff'', lit ''--name-only'', lit ''HEAD~'' @ str_int n] repo) \<noteq> 0 \<longrightarrow>
      cmd_incremental e w repo n =
        ([(lit ''status'', PStr (lit ''error'')),
          (lit ''error'', PStr (strip (stderr (git e [lit ''diff'', lit ''--name-only'', lit ''HEAD~'' @ str_int n] repo)))),
          (lit ''repo'', PStr (path_str e repo))], w)"
    by (simp add: cmd_incremental_error)
  show "returncode (git e [lit ''diff'', lit ''--name-only'', lit ''HEAD~'' @ str_int n] repo) = 0
       \<and> nonempty_lines (stdout (git e [lit ''diff'', lit ''--name-only'', lit ''HEAD~'' @ str_int n] repo)) = [] \<longrightarrow>
      cmd_incremental e w repo n =
        ([(lit ''status'', PStr (lit ''nothing_to_review'')),
          (lit ''base'', PStr (lit ''HEAD~'' @ str_int n)),
          (lit ''repo'', PStr (path_str e repo))], w)"
    by (simp add: cmd_incremental_nothing)
  show "returncode (git e [lit ''diff'', lit ''--name-only'', lit ''HEAD~'' @ str_int n] repo) = 0
       \<and> nonempty_lines (stdout (git e [lit ''diff'', lit ''--name-only'', lit ''HEAD~'' @ str_int n] repo)) = files
       \<and> files \<noteq> [] \<longrightarrow>
      fst (cmd_incremental e w repo n) =
        [(lit ''status'', PStr (lit ''staged'')),
         (lit ''mode'', PStr (get_vscode_mode e)),
         (lit ''repo'', PStr (path_str e repo)),
         (lit ''branch'',
            PStr (if returncode (git e [lit ''branch'', lit ''--show-current''] repo) = 0
                  then strip (stdout (git e [lit ''branch'', lit ''--show-current''] repo))
                  else lit ''unknown'')),
         (lit ''base'', PStr (lit ''HEAD~'' @ str_int n)),
         (lit ''head'', PStr (lit ''HEAD'')),
         (lit ''files'', PList (map PStr files)),
         (lit ''file_count'', PInt (int (length files)))]
      \<and> snd (cmd_incremental e w repo n) =
          open_in_vscode e w (map (\<lambda>f. path_str e (Join repo f)) files) True
      \<and> (get_vscode_mode e = lit ''local'' \<longrightarrow>
           snd (cmd_incremental e w repo n) =
             w\<lparr>launched := launched w
                  @ [[lit ''code'', lit ''--new-window''] @ map (\<lambda>f. path_str e (Join repo f)) files]\<rparr>)
      \<and> (get_vscode_mode e \<noteq> lit ''local'' \<longrightarrow>
           snd (cmd_incremental e w repo n) =
             w\<lparr>state_dir_exists := True,
                vscode_commands_file :=
                  Some (join (lit '' '')
                          ([lit ''code'', lit ''--new-window'']
                           @ map (\<lambda>f. path_str e (Join repo f)) files)
                        @ [newline])\<rparr>)"
    by (auto simp add: cmd_incremental_staged branch_or_unknown_def open_in_vscode_def Let_def)
qed

theorem incremental_checks_no_range_witness:
  "cmd_incremental (sample_env scripted_git) world0 (Path (lit ''/r'')) (- 2) =
     ([(lit ''status'', PStr (lit ''error'')),
       (lit ''error'', PStr (lit ''fatal: bad revision'')),
       (lit ''repo'', PStr (lit ''/r''))], world0)
   \<and> str_int (- 2) = lit ''-2''
   \<and> fst (cmd_incremental (sample_env scripted_git) world0 (Path (lit ''/r'')) 0) =
     [(lit ''status'', PStr (lit ''staged'')),
      (lit ''mode'', PStr (lit ''remote'')),
      (lit ''repo'', PStr (lit ''/r'')),
      (lit ''branch'', PStr (lit ''unknown'')),
      (lit ''base'', PStr (lit ''HEAD~0'')),
      (lit ''head'', PStr (lit ''HEAD'')),
      (lit ''files'', PList [PStr (lit ''a.py'')]),
      (lit ''file_count'', PInt 1)]
   \<and> snd (cmd_incremental (sample_env scripted_git) world0 (Path (lit ''/r'')) 0) =
     \<lparr>state_dir_exists = True,
      vscode_commands_file = Some (lit ''code --new-window /r/a.py'' @ [newline]),
      launched = []\<rparr>"
proof -
  note a = incremental_checks_no_range [where e = "sample_env scripted_git" and w = world0
      and repo = "Path (lit ''/r'')" and n = "- 2"]
  note b = incremental_checks_no_range [where e = "sample_env scripted_git" and w = world0
      and repo = "Path (lit ''/r'')" and n = 0 and files = "[lit ''a.py'']"]
  have 1: "cmd_incremental (sample_env scripted_git) world0 (Path (lit ''/r'')) (- 2) =
     ([(lit ''status'', PStr (lit ''error'')),
       (lit ''error'', PStr (lit ''fatal: bad revision'')),
       (lit ''repo'', PStr (lit ''/r''))], world0)"
    using a by (simp add: sample_eval text_eval str_int_small)
  have 2: "fst (cmd_incremental (sample_env scripted_git) world0 (Path (lit ''/r'')) 0) =
     [(lit ''status'', PStr (lit ''staged'')),
      (lit ''mode'', PStr (lit ''remote'')),
      (lit ''repo'', PStr (lit ''/r'')),
      (lit ''branch'', PStr (lit ''unknown'')),
      (lit ''base'', PStr (lit ''HEAD~0'')),
      (lit ''head'', PStr (lit ''HEAD'')),
      (lit ''files'', PList [PStr (lit ''a.py'')]),
      (lit ''file_count'', PInt 1)]"
    using b by (simp add: sample_eval text_eval str_int_small)
  have 3: "snd (cmd_incremental (sample_env scripted_git) world0 (Path (lit ''/r'')) 0) =
     \<lparr>state_dir_exists = True,
      vscode_commands_file = Some (lit ''code --new-window /r/a.py'' @ [newline]),
      launched = []\<rparr>"
    using b by (simp add: sample_eval text_eval str_int_small)
  from 1 2 3 str_int_small(4) show ?thesis by blast
qed


subsection \<open>The shape of the results\<close>

text \<open>
  Claim C4. Every record the incremental strategy returns, and every record the
  milestone strategy returns, lists at least one file when its status is
  \<^verbatim>\<open>staged\<close> (and \<^verbatim>\<open>file_count\<close> is their number), and lists no file when its status is
  \<^verbatim>\<open>nothing_to_review\<close>: the diff command's file list was empty, and the record has
  no \<^verbatim>\<open>files\<close> entry.
\<close>

theorem diff_result_files_invariant:
  "((r = fst (cmd_incremental e w repo n) \<or> fst (cmd_milestone e w repo branch) = Inr r) \<longrightarrow>
     (map_of r (lit ''status'') = Some (PStr (lit ''staged'')) \<longrightarrow>
        files_of r \<noteq> [] \<and> map_of r (lit ''files'') = Some (PList (files_of r))
        \<and> map_of r (lit ''file_count'') = Some (PInt (int (length (files_of r)))))
     \<and> (map_of r (lit ''status'') = Some (PStr (lit ''nothing_to_review'')) \<longrightarrow>
        files_of r = [] \<and> map_of r (lit ''files'') = None))
   \<and> (map_of (fst (cmd_incremental e w repo n)) (lit ''status'') = Some (PStr (lit ''nothing_to_review'')) \<longrightarrow>
        nonempty_lines (stdout (git e [lit ''diff'', lit ''--name-only'', lit ''HEAD~'' @ str_int n] repo)) = [])
   \<and> (fst (cmd_milestone e w repo branch) = Inr r
       \<and> map_of r (lit ''status'') = Some (PStr (lit ''nothing_to_review'')) \<longrightarrow>
        nonempty_lines
          (stdout (git e [lit ''diff'', lit ''--name-only'',
                          strip (stdout (git e [lit ''merge-base'', lit ''HEAD'', branch] repo))] repo)) = [])"
proof (intro conjI)
  show "(r = fst (cmd_incremental e w repo n) \<or> fst (cmd_milestone e w repo branch) = Inr r) \<longrightarrow>
     (map_of r (lit ''status'') = Some (PStr (lit ''staged'')) \<longrightarrow>
        files_of r \<noteq> [] \<and> map_of r (lit ''files'') = Some (PList (files_of r))
        \<and> map_of r (lit ''file_count'') = Some (PInt (int (length (files_of r)))))
     \<and> (map_of r (lit ''status'') = Some (PStr (lit ''nothing_to_review'')) \<longrightarrow>
        files_of r = [] \<and> map_of r (lit ''files'') = None)"
  proof (rule impI, erule disjE)
    let ?inv = "(map_of r (lit ''status'') = Some (PStr (lit ''staged'')) \<longrightarrow>
        files_of r \<noteq> [] \<and> map_of r (lit ''files'') = Some (PList (files_of r))
        \<and> map_of r (lit ''file_count'') = Some (PInt (int (length (files_of r)))))
     \<and> (map_of r (lit ''status'') = Some (PStr (lit ''nothing_to_review'')) \<longrightarrow>
        files_of r = [] \<and> map_of r (lit ''files'') = None)"
    {
      assume "r = fst (cmd_incremental e w repo n)"
      then show ?inv
        by (simp add: cmd_incremental_def Let_def files_of_def)
    next
      assume "fst (cmd_milestone e w repo branch) = Inr r"
      then show ?inv
        by (auto simp add: cmd_milestone_def Let_def files_of_def split: if_splits sum.splits)
    }
  qed
next
  show "map_of (fst (cmd_incremental e w repo n)) (lit ''status'') = Some (PStr (lit ''nothing_to_review'')) \<longrightarrow>
        nonempty_lines (stdout (git e [lit ''diff'', lit ''--name-only'', lit ''HEAD~'' @ str_int n] repo)) = []"
    by (simp add: cmd_incremental_def Let_def split: if_splits)
next
  show "fst (cmd_milestone e w repo branch) = Inr r
       \<and> map_of r (lit ''status'') = Some (PStr (lit ''nothing_to_review'')) \<longrightarrow>
        nonempty_lines
          (stdout (git e [lit ''diff'', lit ''--name-only'',
                          strip (stdout (git e [lit ''merge-base'', lit ''HEAD'', branch] repo))] repo)) = []"
    by (auto simp add: cmd_milestone_def Let_def split: if_splits sum.splits)
qed

theorem diff_result_files_invariant_witness:
  "files_of (fst (cmd_incremental (sample_env scripted_git) world0 (Path (lit ''/r'')) 1))
     = [PStr (lit ''a.py''), PStr (lit ''b.py'')]
   \<and> map_of (fst (cmd_incremental (sample_env scripted_git) world0 (Path (lit ''/r'')) 1)) (lit ''file_count'')
     = Some (PInt 2)
   \<and> fst (cmd_milestone (sample_env scripted_git) world0 (Path (lit ''/r'')) (lit ''main''))
     = Inr [(lit ''status'', PStr (lit ''nothing_to_review'')),
            (lit ''base'', PStr (lit ''main'')),
            (lit ''merge_base'', PStr (lit ''01234567'')),
            (lit ''repo'', PStr (lit ''/r''))]
   \<and> files_of [(lit ''status'', PStr (lit ''nothing_to_review'')),
            (lit ''base'', PStr (lit ''main'')),
            (lit ''merge_base'', PStr (lit ''01234567'')),
            (lit ''repo'', PStr (lit ''/r''))] = []"
proof -
  have inc: "fst (cmd_incremental (sample_env scripted_git) world0 (Path (lit ''/r'')) 1) =
      [(lit ''status'', PStr (lit ''staged'')),
       (lit ''mode'', PStr (lit ''remote'')),
       (lit ''repo'', PStr (lit ''/r'')),
       (lit ''branch'', PStr (lit ''unknown'')),
       (lit ''base'', PStr (lit ''HEAD~1'')),
       (lit ''head'', PStr (lit ''HEAD'')),
       (lit ''files'', PList [PStr (lit ''a.py''), PStr (lit ''b.py'')]),
       (lit ''file_count'', PInt 2)]"
    by (simp add: cmd_incremental_def sample_eval text_eval str_int_small Let_def)
  have mil: "fst (cmd_milestone (sample_env scripted_git) world0 (Path (lit ''/r'')) (lit ''main''))
     = Inr [(lit ''status'', PStr (lit ''nothing_to_review'')),
            (lit ''base'', PStr (lit ''main'')),
            (lit ''merge_base'', PStr (lit ''01234567'')),
            (lit ''repo'', PStr (lit ''/r''))]"
    by (simp add: cmd_milestone_def sample_eval text_eval Let_def py_int_def int_literal_ok_def
        digit_eval startswith_def contains_def)
  note a = diff_result_files_invariant [where e = "sample_env scripted_git" and w = world0
      and repo = "Path (lit ''/r'')" and n = 1 and branch = "lit ''main''"
      and r = "fst (cmd_incremental (sample_env scripted_git) world0 (Path (lit ''/r'')) 1)"]
  note b = diff_result_files_invariant [where e = "sample_env scripted_git" and w = world0
      and repo = "Path (lit ''/r'')" and n = 1 and branch = "lit ''main''"
      and r = "[(lit ''status'', PStr (lit ''nothing_to_review'')),
            (lit ''base'', PStr (lit ''main'')),
            (lit ''merge_base'', PStr (lit ''01234567'')),
            (lit ''repo'', PStr (lit ''/r''))]"]
  have 1: "files_of (fst (cmd_incremental (sample_env scripted_git) world0 (Path (lit ''/r'')) 1))
     = [PStr (lit ''a.py''), PStr (lit ''b.py'')]"
    using a by (simp add: inc)
  have 2: "map_of (fst (cmd_incremental (sample_env scripted_git) world0 (Path (lit ''/r'')) 1)) (lit ''file_count'')
     = Some (PInt 2)"
    using a by (simp add: inc)
  have 4: "files_of [(lit ''status'', PStr (lit ''nothing_to_review'')),
            (lit ''base'', PStr (lit ''main'')),
            (lit ''merge_base'', PStr (lit ''01234567'')),
            (lit ''repo'', PStr (lit ''/r''))] = []"
    using b mil by simp
  from 1 2 mil 4 show ?thesis by simp
qed

text \<open>
  Claim C5. When the merge-base command succeeds, the diff against it lists no file
  and the commit count could be computed, the milestone strategy returns
  \<^verbatim>\<open>nothing_to_review\<close> with the merge-base identifier cut to its first 8 characters,
  and the record has no \<^verbatim>\<open>commit_count\<close> entry; the world is untouched.
\<close>

theorem milestone_nothing_omits_commit_count:
  "returncode (git e [lit ''merge-base'', lit ''HEAD'', branch] repo) = 0
   \<and> strip (stdout (git e [lit ''merge-base'', lit ''HEAD'', branch] repo)) = mb
   \<and> nonempty_lines (stdout (git e [lit ''diff'', lit ''--name-only'', mb] repo)) = []
   \<and> commit_count_of (git e [lit ''rev-list'', lit ''--count'', mb @ lit ''..HEAD''] repo) = Inr c
   \<longrightarrow>
     (\<exists>r. cmd_milestone e w repo branch = (Inr r, w)
        \<and> map_of r (lit ''status'') = Some (PStr (lit ''nothing_to_review''))
        \<and> map_of r (lit ''merge_base'') = Some (PStr (take 8 mb))
        \<and> length (take 8 mb) = min (length mb) 8
        \<and> map_of r (lit ''commit_count'') = None
        \<and> lit ''commit_count'' \<notin> fst ` set r)"
proof
  assume a: "returncode (git e [lit ''merge-base'', lit ''HEAD'', branch] repo) = 0
   \<and> strip (stdout (git e [lit ''merge-base'', lit ''HEAD'', branch] repo)) = mb
   \<and> nonempty_lines (stdout (git e [lit ''diff'', lit ''--name-only'', mb] repo)) = []
   \<and> commit_count_of (git e [lit ''rev-list'', lit ''--count'', mb @ lit ''..HEAD''] repo) = Inr c"
  then have "cmd_milestone e w repo branch =
     (Inr [(lit ''status'', PStr (lit ''nothing_to_review'')),
           (lit ''base'', PStr branch),
           (lit ''merge_base'', PStr (take 8 mb)),
           (lit ''repo'', PStr (path_str e repo))], w)"
    by (simp add: cmd_milestone_nothing [where mb = mb and c = c])
  then show "\<exists>r. cmd_milestone e w repo branch = (Inr r, w)
        \<and> map_of r (lit ''status'') = Some (PStr (lit ''nothing_to_review''))
        \<and> map_of r (lit ''merge_base'') = Some (PStr (take 8 mb))
        \<and> length (take 8 mb) = min (length mb) 8
        \<and> map_of r (lit ''commit_count'') = None
        \<and> lit ''commit_count'' \<notin> fst ` set r"
    by simp
qed

theorem milestone_nothing_omits_commit_count_witness:
  "commit_count_of (git (sample_env scripted_git)
       [lit ''rev-list'', lit ''--count'', lit ''0123456789abcdef0123456789abcdef01234567..HEAD''] (Path (lit ''/r'')))
     = Inr 3
   \<and> (\<exists>r. cmd_milestone (sample_env scripted_git) world0 (Path (lit ''/r'')) (lit ''main'') = (Inr r, world0)
        \<and> map_of r (lit ''status'') = Some (PStr (lit ''nothing_to_review''))
        \<and> map_of r (lit ''merge_base'') = Some (PStr (lit ''01234567''))
        \<and> map_of r (lit ''commit_count'') = None)"
proof -
  have c: "commit_count_of (git (sample_env scripted_git)
       [lit ''rev-list'', lit ''--count'', lit ''0123456789abcdef0123456789abcdef01234567..HEAD''] (Path (lit ''/r'')))
     = Inr 3"
    by (simp add: sample_eval text_eval py_int_def int_literal_ok_def
        digit_eval startswith_def contains_def)
  have h: "returncode (git (sample_env scripted_git) [lit ''merge-base'', lit ''HEAD'', lit ''main''] (Path (lit ''/r''))) = 0
     \<and> strip (stdout (git (sample_env scripted_git) [lit ''merge-base'', lit ''HEAD'', lit ''main''] (Path (lit ''/r''))))
         = lit ''0123456789abcdef0123456789abcdef01234567''
     \<and> nonempty_lines (stdout (git (sample_env scripted_git)
         [lit ''diff'', lit ''--name-only'', lit ''0123456789abcdef0123456789abcdef01234567''] (Path (lit ''/r'')))) = []"
    by (simp add: sample_eval text_eval)
  have t: "take 8 (lit ''0123456789abcdef0123456789abcdef01234567'') = lit ''01234567''"
    by (simp add: lit_def)
  from h c milestone_nothing_omits_commit_count [where e = "sample_env scripted_git" and w = world0
      and repo = "Path (lit ''/r'')" and branch = "lit ''main''" and c = 3
      and mb = "lit ''0123456789abcdef0123456789abcdef01234567''"]
  have "\<exists>r. cmd_milestone (sample_env scripted_git) world0 (Path (lit ''/r'')) (lit ''main'') = (Inr r, world0)
        \<and> map_of r (lit ''status'') = Some (PStr (lit ''nothing_to_review''))
        \<and> map_of r (lit ''merge_base'') = Some (PStr (lit ''01234567''))
        \<and> map_of r (lit ''commit_count'') = None"
    by (auto simp add: t)
  with c show ?thesis by blast
qed




subsection \<open>Text search and the patterns of the scanner\<close>

text \<open>
  \<open>find\<close> and \<open>contains\<close> against their meaning: an occurrence is a way to write the
  text as \<open>a @ m @ b\<close>, and the index found is that of the leftmost one.
\<close>

lemma startswith_append: "startswith m (m @ s)"
  by (simp add: startswith_def)

lemma startswith_iff: "startswith m s \<longleftrightarrow> (\<exists>t. s = m @ t)"
  unfolding startswith_def
  by (metis append_eq_conv_conj append_take_drop_id)

lemma find_None_iff: "find m s = None \<longleftrightarrow> \<not> (\<exists>a b. s = a @ m @ b)"
proof (induction s)
  case Nil
  then show ?case by auto
next
  case (Cons c cs)
  show ?case
  proof (cases "startswith m (c # cs)")
    case True
    then obtain t where "c # cs = m @ t" by (auto simp: startswith_iff)
    then have "c # cs = [] @ m @ t" by simp
    with True show ?thesis by (metis find.simps(2) option.distinct(1))
  next
    case False
    have "(\<exists>a b. c # cs = a @ m @ b) \<longleftrightarrow> (\<exists>a b. cs = a @ m @ b)"
    proof
      assume "\<exists>a b. c # cs = a @ m @ b"
      then obtain a b where ab: "c # cs = a @ m @ b" by blast
      show "\<exists>a b. cs = a @ m @ b"
      proof (cases a)
        case Nil
        with ab have "startswith m (c # cs)" by (simp add: startswith_iff)
        with False show ?thesis by simp
      next
        case (Cons x a')
        with ab have "cs = a' @ m @ b" by simp
        then show ?thesis by blast
      qed
    next
      assume "\<exists>a b. cs = a @ m @ b"
      then obtain a b where "cs = a @ m @ b" by blast
      then have "c # cs = (c # a) @ m @ b" by simp
      then show "\<exists>a b. c # cs = a @ m @ b" by blast
    qed
    with False Cons.IH show ?thesis by simp
  qed
qed

lemma contains_iff: "contains m s \<longleftrightarrow> (\<exists>a b. s = a @ m @ b)"
  by (simp add: contains_def find_None_iff)

lemma find_first_occurrence:
  "m \<noteq> [] \<Longrightarrow> \<not> contains m (pre @ butlast m) \<Longrightarrow> find m (pre @ m @ post) = Some (length pre)"
proof (induction pre)
  case Nil
  then show ?case
    by (cases m) (simp_all add: startswith_def)
next
  case (Cons c pre)
  have no_start: "\<not> startswith m (c # pre @ m @ post)"
  proof
    assume "startswith m (c # pre @ m @ post)"
    then have tk: "take (length m) (c # pre @ m @ post) = m" by (simp add: startswith_def)
    have eq: "c # pre @ m @ post = (c # pre @ butlast m) @ (last m # post)"
      using Cons.prems(1) by simp
    have "length m \<le> length (c # pre @ butlast m)" by simp
    then have "take (length m) ((c # pre @ butlast m) @ (last m # post)) = take (length m) (c # pre @ butlast m)"
      by (simp only: take_append) simp
    with tk eq have "take (length m) (c # pre @ butlast m) = m" by simp
    then have "startswith m (c # pre @ butlast m)" by (simp add: startswith_def)
    then have "contains m ((c # pre) @ butlast m)" by (simp add: contains_def)
    with Cons.prems(2) show False by simp
  qed
  have "\<not> contains m (pre @ butlast m)"
    using Cons.prems(2) by (auto simp: contains_def split: if_splits)
  with Cons.IH Cons.prems(1) have "find m (pre @ m @ post) = Some (length pre)" by simp
  with no_start show ?case by simp
qed

lemma rstrip_id: "s = [] \<or> \<not> isspace (last s) \<Longrightarrow> rstrip s = s"
  by (cases s rule: rev_cases) (auto simp: rstrip_def)

lemma rstrip_last: "rstrip s \<noteq> [] \<Longrightarrow> \<not> isspace (last (rstrip s))"
  unfolding rstrip_def
  by (metis hd_dropWhile last_rev rev_is_Nil_conv)

lemma strip_last: "strip s \<noteq> [] \<Longrightarrow> \<not> isspace (last (strip s))"
  unfolding strip_def by (rule rstrip_last)

lemma strip_of_tail:
  assumes "strip rest = pre @ m @ post"
  shows "lstrip post = strip post"
proof (cases "post = []")
  case True
  then show ?thesis by (simp add: strip_def lstrip_def rstrip_def)
next
  case False
  then have "strip rest \<noteq> []" using assms by simp
  then have "\<not> isspace (last (strip rest))" by (rule strip_last)
  with assms False have nl: "\<not> isspace (last post)" by simp
  then have ne: "lstrip post \<noteq> []"
    unfolding lstrip_def using False
    by (metis dropWhile_eq_Nil_conv last_in_set)
  have "last (lstrip post) = last post"
    unfolding lstrip_def using ne
    by (metis append_Nil2 dropWhile_eq_Nil_conv last_appendR lstrip_def takeWhile_dropWhile_id)
  with nl ne have "rstrip (lstrip post) = lstrip post" by (simp add: rstrip_id)
  then show ?thesis by (simp add: strip_def)
qed

lemma match_tail_shape:
  assumes "filepath \<noteq> []" "cp (CHR '':'') \<notin> set filepath" "digits \<noteq> []" "list_all isdigit digits"
  shows "match_tail (filepath @ lit '':'' @ digits @ lit '':'' @ rest) = Some (filepath, digits, rest)"
proof -
  have c: "\<not> isdigit (cp (CHR '':''))" by (simp add: digit_eval cp_def)
  have d: "\<forall>x\<in>set digits. isdigit x" using assms(4) by (simp add: list_all_iff)
  have 1: "takeWhile (\<lambda>c. c \<noteq> cp (CHR '':'')) (filepath @ cp (CHR '':'') # digits @ cp (CHR '':'') # rest) = filepath"
    using assms(2) by (auto simp add: takeWhile_tail)
  have 2: "dropWhile (\<lambda>c. c \<noteq> cp (CHR '':'')) (filepath @ cp (CHR '':'') # digits @ cp (CHR '':'') # rest)
     = cp (CHR '':'') # digits @ cp (CHR '':'') # rest"
    using assms(2) by (auto simp add: dropWhile_append3)
  have 3: "takeWhile isdigit (digits @ cp (CHR '':'') # rest) = digits"
    using d c by (simp add: takeWhile_tail)
  have 4: "dropWhile isdigit (digits @ cp (CHR '':'') # rest) = cp (CHR '':'') # rest"
    using d c by (simp add: dropWhile_append3)
  show ?thesis
    using assms(1,3) 1 2 3 4 by (simp add: match_tail_def Let_def lit_def)
qed

lemma match_grep_line_shape:
  assumes "filepath \<noteq> []" "cp (CHR '':'') \<notin> set filepath" "digits \<noteq> []" "list_all isdigit digits"
  shows "match_grep_line (lit ''./'' @ filepath @ lit '':'' @ digits @ lit '':'' @ rest) = Some (filepath, digits, rest)"
  using match_tail_shape [OF assms, of rest]
  by (simp add: match_grep_line_def startswith_def lit_def)

lemmas scan_eval = scan_line_def match_grep_line_def match_tail_def search_marker_def
  comment_record_def startswith_def digit_eval path_text.simps

lemma split_on_pieces: "piece \<in> set (split_on sep s) \<Longrightarrow> sep \<notin> set piece"
  by (induction s arbitrary: piece) (auto split: if_splits list.splits)


subsection \<open>Comment scanner\<close>

text \<open>
  Claim C2, as the claim states it, fails twice. On the line \<^verbatim>\<open>RVW: see RVWY: below\<close>
  the earliest marker is \<^verbatim>\<open>RVW:\<close>, at index 0, yet the record carries the text behind
  the later \<^verbatim>\<open>RVWY:\<close>. And a marker line in a file whose name holds a colon gives no
  record at all.
\<close>

theorem scan_line_later_rvwy_wins:
  "scan_lines (sample_env scripted_git) (Path (lit ''/r'')) [lit ''./docs/x.md:3:RVW: see RVWY: below'']
     = [PDict [(lit ''file'', PStr (lit ''/r/docs/x.md'')),
               (lit ''relative_path'', PStr (lit ''docs/x.md'')),
               (lit ''line'', PInt 3),
               (lit ''raw'', PStr (lit ''RVW: see RVWY: below'')),
               (lit ''comment'', PStr (lit ''below'')),
               (lit ''yolo'', PBool True)]]
   \<and> find (lit ''RVW:'') (lit ''RVW: see RVWY: below'') = Some 0
   \<and> find (lit ''RVWY:'') (lit ''RVW: see RVWY: below'') = Some 9
   \<and> scan_lines (sample_env scripted_git) (Path (lit ''/r'')) [lit ''./a:b.py:3:# RVW: x''] = []"
  by (simp add: scan_eval text_eval sample_env_def)

text \<open>
  Claim C2, amended. Every line of the search output of the shape
  \<^verbatim>\<open>./path:number:text\<close>, with a non-empty path free of colons, whose trimmed text
  holds a marker, gives exactly one record. Its comment is the text behind the leftmost
  \<^verbatim>\<open>RVWY:\<close> when the text holds \<^verbatim>\<open>RVWY:\<close>, and behind the leftmost \<^verbatim>\<open>RVW:\<close>
  otherwise, trimmed on both sides; \<open>yolo\<close> is true in the first case only. So a line
  with both markers gives one record with \<open>yolo\<close> true and the text behind \<^verbatim>\<open>RVWY:\<close>.
\<close>

theorem scan_line_marker_priority:
  assumes "line = lit ''./'' @ filepath @ lit '':'' @ digits @ lit '':'' @ rest"
    and "newline \<notin> set line"
    and "filepath \<noteq> []" and "cp (CHR '':'') \<notin> set filepath"
    and "digits \<noteq> []" and "list_all isdigit digits"
    and "strip rest = pre @ marker @ post"
    and "marker = lit ''RVWY:'' \<or> (marker = lit ''RVW:'' \<and> \<not> contains (lit ''RVWY:'') (strip rest))"
    and "\<not> contains marker (pre @ butlast marker)"
  shows "scan_lines e repo [line] =
           [comment_record e repo filepath (int (digits_value 0 digits)) (strip rest)
              (strip post) (marker = lit ''RVWY:'')]"
proof -
  have m: "match_grep_line line = Some (filepath, digits, rest)"
    unfolding assms(1) using assms(3-6) by (rule match_grep_line_shape)
  have ne: "line \<noteq> []" using assms(1) by simp
  have mk: "marker \<noteq> []" using assms(8) by auto
  have "find marker (pre @ marker @ post) = Some (length pre)"
    using mk assms(9) by (rule find_first_occurrence)
  then have s: "search_marker marker (strip rest) = Some (strip post)"
    using strip_of_tail [OF assms(7)] by (simp add: search_marker_def assms(7))
  from assms(8) show ?thesis
  proof
    assume y: "marker = lit ''RVWY:''"
    with s m ne show ?thesis by (simp add: scan_line_def Let_def)
  next
    assume w: "marker = lit ''RVW:'' \<and> \<not> contains (lit ''RVWY:'') (strip rest)"
    then have "search_marker (lit ''RVWY:'') (strip rest) = None"
      by (simp add: search_marker_def contains_def)
    with w s m ne show ?thesis by (simp add: scan_line_def Let_def)
  qed
qed

theorem scan_line_marker_priority_witness:
  "scan_lines (sample_env scripted_git) (Path (lit ''/r'')) [lit ''./src/a.py:12:    # RVWY: fix bounds check'']
     = [PDict [(lit ''file'', PStr (lit ''/r/src/a.py'')),
               (lit ''relative_path'', PStr (lit ''src/a.py'')),
               (lit ''line'', PInt 12),
               (lit ''raw'', PStr (lit ''# RVWY: fix bounds check'')),
               (lit ''comment'', PStr (lit ''fix bounds check'')),
               (lit ''yolo'', PBool True)]]
   \<and> scan_lines (sample_env scripted_git) (Path (lit ''/r'')) [lit ''./notes.md:7:# RVW: discuss naming'']
     = [PDict [(lit ''file'', PStr (lit ''/r/notes.md'')),
               (lit ''relative_path'', PStr (lit ''notes.md'')),
               (lit ''line'', PInt 7),
               (lit ''raw'', PStr (lit ''# RVW: discuss naming'')),
               (lit ''comment'', PStr (lit ''discuss naming'')),
               (lit ''yolo'', PBool False)]]
   \<and> scan_lines (sample_env scripted_git) (Path (lit ''/r''))
        [lit ''./a.py:3:// RVWY:'' @ [0xA0] @ lit ''fix'' @ [0x3000]]
     = [PDict [(lit ''file'', PStr (lit ''/r/a.py'')),
               (lit ''relative_path'', PStr (lit ''a.py'')),
               (lit ''line'', PInt 3),
               (lit ''raw'', PStr (lit ''// RVWY:'' @ [0xA0] @ lit ''fix'')),
               (lit ''comment'', PStr (lit ''fix'')),
               (lit ''yolo'', PBool True)]]"
proof -
  have 1: "scan_lines (sample_env scripted_git) (Path (lit ''/r'')) [lit ''./src/a.py:12:    # RVWY: fix bounds check'']
     = [PDict [(lit ''file'', PStr (lit ''/r/src/a.py'')),
               (lit ''relative_path'', PStr (lit ''src/a.py'')),
               (lit ''line'', PInt 12),
               (lit ''raw'', PStr (lit ''# RVWY: fix bounds check'')),
               (lit ''comment'', PStr (lit ''fix bounds check'')),
               (lit ''yolo'', PBool True)]]"
    using scan_line_marker_priority [where e = "sample_env scripted_git" and repo = "Path (lit ''/r'')"
        and line = "lit ''./src/a.py:12:    # RVWY: fix bounds check''"
        and filepath = "lit ''src/a.py''" and digits = "lit ''12''"
        and rest = "lit ''    # RVWY: fix bounds check''"
        and pre = "lit ''# ''" and marker = "lit ''RVWY:''" and post = "lit '' fix bounds check''"]
    by (simp add: text_eval digit_eval contains_def startswith_def comment_record_def sample_env_def)
  have 2: "scan_lines (sample_env scripted_git) (Path (lit ''/r'')) [lit ''./notes.md:7:# RVW: discuss naming'']
     = [PDict [(lit ''file'', PStr (lit ''/r/notes.md'')),
               (lit ''relative_path'', PStr (lit ''notes.md'')),
               (lit ''line'', PInt 7),
               (lit ''raw'', PStr (lit ''# RVW: discuss naming'')),
               (lit ''comment'', PStr (lit ''discuss naming'')),
               (lit ''yolo'', PBool False)]]"
    using scan_line_marker_priority [where e = "sample_env scripted_git" and repo = "Path (lit ''/r'')"
        and line = "lit ''./notes.md:7:# RVW: discuss naming''"
        and filepath = "lit ''notes.md''" and digits = "lit ''7''"
        and rest = "lit ''# RVW: discuss naming''"
        and pre = "lit ''# ''" and marker = "lit ''RVW:''" and post = "lit '' discuss naming''"]
    by (simp add: text_eval digit_eval contains_def startswith_def comment_record_def sample_env_def)
  have 3: "scan_lines (sample_env scripted_git) (Path (lit ''/r''))
        [lit ''./a.py:3:// RVWY:'' @ [0xA0] @ lit ''fix'' @ [0x3000]]
     = [PDict [(lit ''file'', PStr (lit ''/r/a.py'')),
               (lit ''relative_path'', PStr (lit ''a.py'')),
               (lit ''line'', PInt 3),
               (lit ''raw'', PStr (lit ''// RVWY:'' @ [0xA0] @ lit ''fix'')),
               (lit ''comment'', PStr (lit ''fix'')),
               (lit ''yolo'', PBool True)]]"
    using scan_line_marker_priority [where e = "sample_env scripted_git" and repo = "Path (lit ''/r'')"
        and line = "lit ''./a.py:3:// RVWY:'' @ [0xA0] @ lit ''fix'' @ [0x3000]"
        and filepath = "lit ''a.py''" and digits = "lit ''3''"
        and rest = "lit ''// RVWY:'' @ [0xA0] @ lit ''fix'' @ [0x3000]"
        and pre = "lit ''// ''" and marker = "lit ''RVWY:''" and post = "[0xA0] @ lit ''fix''"]
    by (simp add: text_eval digit_eval contains_def startswith_def comment_record_def sample_env_def)
  from 1 2 3 show ?thesis by simp
qed




subsection \<open>Alias resolver\<close>

lemmas alias_eval = parse_directory_map_def get_active_task_repos_def alias_env_def
  directory_map_doc_def task_doc_def contains_def startswith_def find_from_def lstrip_char_def
  completed_def parse_table_lines.simps Let_def

lemma alias_env_table:
  "parse_directory_map alias_env (lit ''iree'') = Some (Path (lit ''/work/iree-2''))"
  "parse_directory_map alias_env (lit ''llvm'') = Some (Path (lit ''/work/llvm''))"
  "parse_directory_map alias_env (lit ''nope'') = None"
  "parse_directory_map alias_env (lit ''/tmp/checkout'') = None"
  by (simp_all add: alias_eval text_eval)

lemma alias_env_task: "get_active_task_repos alias_env = [lit ''llvm'', lit ''iree'']"
  by (simp add: alias_eval text_eval Let_def)

text \<open>
  Claim C6. The resolution order of \<^verbatim>\<open>resolve_repo\<close>: a non-empty alias found in the
  table gives its path; otherwise, naming an existing path, that path resolved;
  otherwise \<^verbatim>\<open>ValueError\<close>. Without an alias (or with the empty one) the first
  repository of the active task gives its table entry when it has one, and in every
  other case the result is the current directory. It fails exactly for a non-empty
  alias that is in no table and names no existing path.
\<close>

theorem resolve_repo_order:
  "(arg = Some a \<and> a \<noteq> [] \<and> parse_directory_map e a = Some p \<longrightarrow>
      resolve_repo e arg = Inr p)
   \<and> (arg = Some a \<and> a \<noteq> [] \<and> parse_directory_map e a = None \<and> path_exists e (Path a) \<longrightarrow>
      resolve_repo e arg = Inr (Resolve (Path a)))
   \<and> (arg = Some a \<and> a \<noteq> [] \<and> parse_directory_map e a = None \<and> \<not> path_exists e (Path a) \<longrightarrow>
      resolve_repo e arg = Inl (ValueError (lit ''Unknown repo alias: '' @ a)))
   \<and> ((arg = None \<or> arg = Some [])
       \<and> get_active_task_repos e = first_repo # others
       \<and> parse_directory_map e first_repo = Some p \<longrightarrow>
      resolve_repo e arg = Inr p)
   \<and> ((arg = None \<or> arg = Some [])
       \<and> (get_active_task_repos e = []
           \<or> (get_active_task_repos e = first_repo # others
               \<and> parse_directory_map e first_repo = None)) \<longrightarrow>
      resolve_repo e arg = Inr Cwd)
   \<and> ((\<exists>err. resolve_repo e arg = Inl err) \<longleftrightarrow>
        (\<exists>b. arg = Some b \<and> b \<noteq> [] \<and> parse_directory_map e b = None
              \<and> \<not> path_exists e (Path b)))"
proof (intro conjI)
  show "arg = Some a \<and> a \<noteq> [] \<and> parse_directory_map e a = Some p \<longrightarrow>
      resolve_repo e arg = Inr p"
    by (simp add: resolve_repo_def Let_def)
  show "arg = Some a \<and> a \<noteq> [] \<and> parse_directory_map e a = None \<and> path_exists e (Path a) \<longrightarrow>
      resolve_repo e arg = Inr (Resolve (Path a))"
    by (simp add: resolve_repo_def Let_def)
  show "arg = Some a \<and> a \<noteq> [] \<and> parse_directory_map e a = None \<and> \<not> path_exists e (Path a) \<longrightarrow>
      resolve_repo e arg = Inl (ValueError (lit ''Unknown repo alias: '' @ a))"
    by (simp add: resolve_repo_def Let_def)
  show "(arg = None \<or> arg = Some [])
       \<and> get_active_task_repos e = first_repo # others
       \<and> parse_directory_map e first_repo = Some p \<longrightarrow>
      resolve_repo e arg = Inr p"
    by (auto simp add: resolve_repo_def active_task_or_cwd_def Let_def)
  show "(arg = None \<or> arg = Some [])
       \<and> (get_active_task_repos e = []
           \<or> (get_active_task_repos e = first_repo # others
               \<and> parse_directory_map e first_repo = None)) \<longrightarrow>
      resolve_repo e arg = Inr Cwd"
    by (auto simp add: resolve_repo_def active_task_or_cwd_def Let_def)
  show "(\<exists>err. resolve_repo e arg = Inl err) \<longleftrightarrow>
        (\<exists>b. arg = Some b \<and> b \<noteq> [] \<and> parse_directory_map e b = None
              \<and> \<not> path_exists e (Path b))"
    by (auto simp add: resolve_repo_def Let_def split: option.splits if_splits)
qed

theorem resolve_repo_order_witness:
  "resolve_repo alias_env (Some (lit ''llvm'')) = Inr (Path (lit ''/work/llvm''))
   \<and> resolve_repo alias_env (Some (lit ''/tmp/checkout'')) = Inr (Resolve (Path (lit ''/tmp/checkout'')))
   \<and> resolve_repo alias_env (Some (lit ''nope'')) = Inl (ValueError (lit ''Unknown repo alias: nope''))
   \<and> resolve_repo alias_env None = Inr (Path (lit ''/work/llvm''))
   \<and> resolve_repo (sample_env scripted_git) (Some []) = Inr Cwd"
proof -
  have ex: "path_exists alias_env (Path (lit ''/tmp/checkout''))" "\<not> path_exists alias_env (Path (lit ''nope''))"
    by (simp_all add: alias_env_def)
  have 1: "resolve_repo alias_env (Some (lit ''llvm'')) = Inr (Path (lit ''/work/llvm''))"
    using resolve_repo_order [where e = alias_env and arg = "Some (lit ''llvm'')" and a = "lit ''llvm''"
        and p = "Path (lit ''/work/llvm'')"] alias_env_table
    by simp
  have 2: "resolve_repo alias_env (Some (lit ''/tmp/checkout'')) = Inr (Resolve (Path (lit ''/tmp/checkout'')))"
    using resolve_repo_order [where e = alias_env and arg = "Some (lit ''/tmp/checkout'')"
        and a = "lit ''/tmp/checkout''"] alias_env_table ex
    by simp
  have 3: "resolve_repo alias_env (Some (lit ''nope'')) = Inl (ValueError (lit ''Unknown repo alias: nope''))"
    using resolve_repo_order [where e = alias_env and arg = "Some (lit ''nope'')" and a = "lit ''nope''"]
      alias_env_table ex
    by simp
  have 4: "resolve_repo alias_env None = Inr (Path (lit ''/work/llvm''))"
    using resolve_repo_order [where e = alias_env and arg = None and first_repo = "lit ''llvm''"
        and others = "[lit ''iree'']" and p = "Path (lit ''/work/llvm'')"] alias_env_table alias_env_task
    by simp
  have none: "get_active_task_repos (sample_env scripted_git) = []"
    by (simp add: get_active_task_repos_def sample_env_def)
  have 5: "resolve_repo (sample_env scripted_git) (Some []) = Inr Cwd"
    using resolve_repo_order [where e = "sample_env scripted_git" and arg = "Some []"] none
    by simp
  from 1 2 3 4 5 show ?thesis by simp
qed

lemma separator_is_row: "startswith (lit ''|---'') l \<Longrightarrow> startswith (lit ''|'') l"
  by (cases l) (simp_all add: startswith_def lit_def)

lemma before_table:
  "list_all (\<lambda>l. \<not> contains (lit ''| Alias |'') l) before \<Longrightarrow> contains (lit ''| Alias |'') header \<Longrightarrow>
   parse_table_lines False (before @ header # rows) m = parse_table_lines True rows m"
  by (induction before) (simp_all add: parse_table_lines.simps)

lemma inside_table:
  "list_all (\<lambda>l. \<not> ends_table l) ls \<Longrightarrow>
   \<exists>m'. parse_table_lines True (ls @ tail) m = parse_table_lines True tail m'"
proof (induction ls arbitrary: m)
  case Nil
  then show ?case by auto
next
  case (Cons l ls)
  then have ih: "\<And>m. \<exists>m'. parse_table_lines True (ls @ tail) m = parse_table_lines True tail m'"
    by simp
  from Cons.prems have "\<not> ends_table l" by simp
  then show ?case
    using ih by (auto simp add: ends_table_def Let_def parse_table_lines.simps)
qed

lemma row_entry_step:
  "row_entry l = Some (a, p) \<Longrightarrow>
   parse_table_lines True (l # tail) m = parse_table_lines True tail (m(a \<mapsto> p))"
  by (auto simp add: row_entry_def Let_def parse_table_lines.simps split: if_splits)

lemma row_entry_alias: "row_entry l = Some (a, p) \<Longrightarrow> a \<noteq> []"
  by (auto simp add: row_entry_def Let_def split: if_splits)

lemma after_last_row:
  "list_all (\<lambda>l. \<not> ends_table l) zs \<Longrightarrow>
   list_all (\<lambda>l. map_option fst (row_entry l) \<noteq> Some a) zs \<Longrightarrow>
   (case rest of [] \<Rightarrow> True | l # _ \<Rightarrow> ends_table l) \<Longrightarrow>
   parse_table_lines True (zs @ rest) m a = m a"
proof (induction zs arbitrary: m)
  case Nil
  then show ?case
    by (cases rest) (auto simp add: ends_table_def parse_table_lines.simps dest: separator_is_row)
next
  case (Cons l zs)
  then have ih: "\<And>m. parse_table_lines True (zs @ rest) m a = m a" by simp
  from Cons.prems have stay: "\<not> ends_table l" and other: "map_option fst (row_entry l) \<noteq> Some a"
    by simp_all
  show ?case
  proof (cases "row_entry l")
    case None
    then have "parse_table_lines True ((l # zs) @ rest) m = parse_table_lines True (zs @ rest) m"
      using stay by (auto simp add: row_entry_def ends_table_def Let_def parse_table_lines.simps split: if_splits)
    with ih show ?thesis by simp
  next
    case (Some ap)
    obtain a' p' where ap: "ap = (a', p')" by (cases ap)
    with Some other have ne: "a' \<noteq> a" by auto
    from Some ap have "parse_table_lines True ((l # zs) @ rest) m
        = parse_table_lines True (zs @ rest) (m(a' \<mapsto> p'))"
      by (simp add: row_entry_step)
    with ih ne show ?thesis by simp
  qed
qed

text \<open>
  Claim C10. When the table region of the document holds two rows for the same alias,
  and the second of them is the last row for that alias before the table ends, the
  parsed table maps the alias to the path of that last row, and resolving the alias
  returns it.
\<close>

theorem duplicate_alias_last_wins:
  assumes "directory_map_file e = Some content"
    and "split_on newline content = before @ header # xs @ r1 # ys @ r2 # zs @ rest"
    and "list_all (\<lambda>l. \<not> contains (lit ''| Alias |'') l) before"
    and "contains (lit ''| Alias |'') header"
    and "list_all (\<lambda>l. \<not> ends_table l) (xs @ r1 # ys @ r2 # zs)"
    and "case rest of [] \<Rightarrow> True | l # _ \<Rightarrow> ends_table l"
    and "row_entry r1 = Some (a, p1)"
    and "row_entry r2 = Some (a, p2)"
    and "list_all (\<lambda>l. map_option fst (row_entry l) \<noteq> Some a) zs"
  shows "parse_directory_map e a = Some p2 \<and> resolve_repo e (Some a) = Inr p2"
proof -
  have stay1: "list_all (\<lambda>l. \<not> ends_table l) (xs @ r1 # ys)"
    and stay2: "list_all (\<lambda>l. \<not> ends_table l) zs"
    using assms(5) by simp_all
  have e1: "parse_directory_map e
      = parse_table_lines False (before @ header # (xs @ r1 # ys) @ r2 # zs @ rest) Map.empty"
    using assms(1,2) by (simp add: parse_directory_map_def)
  have e2: "parse_table_lines False (before @ header # (xs @ r1 # ys) @ r2 # zs @ rest) Map.empty
      = parse_table_lines True ((xs @ r1 # ys) @ r2 # zs @ rest) Map.empty"
    using assms(3,4) by (rule before_table)
  obtain m' where e3:
    "parse_table_lines True ((xs @ r1 # ys) @ r2 # zs @ rest) Map.empty
       = parse_table_lines True (r2 # zs @ rest) m'"
    using inside_table [OF stay1] by blast
  have e4: "parse_table_lines True (r2 # zs @ rest) m'
      = parse_table_lines True (zs @ rest) (m'(a \<mapsto> p2))"
    using assms(8) by (rule row_entry_step)
  have e5: "parse_table_lines True (zs @ rest) (m'(a \<mapsto> p2)) a = (m'(a \<mapsto> p2)) a"
    using stay2 assms(9) assms(6) by (rule after_last_row)
  have t: "parse_directory_map e a = Some p2"
    unfolding e1 e2 e3 e4 e5 by simp
  have "a \<noteq> []" using assms(8) by (rule row_entry_alias)
  with t show ?thesis by (simp add: resolve_repo_def)
qed

theorem duplicate_alias_last_wins_witness:
  "row_entry (lit ''| iree | /work/iree | main checkout |'') = Some (lit ''iree'', Path (lit ''/work/iree''))
   \<and> row_entry (lit ''| iree | /work/iree-2 | second clone |'') = Some (lit ''iree'', Path (lit ''/work/iree-2''))
   \<and> parse_directory_map alias_env (lit ''iree'') = Some (Path (lit ''/work/iree-2''))
   \<and> resolve_repo alias_env (Some (lit ''iree'')) = Inr (Path (lit ''/work/iree-2''))"
proof -
  have r1: "row_entry (lit ''| iree | /work/iree | main checkout |'') = Some (lit ''iree'', Path (lit ''/work/iree''))"
    and r2: "row_entry (lit ''| iree | /work/iree-2 | second clone |'') = Some (lit ''iree'', Path (lit ''/work/iree-2''))"
    by (simp_all add: row_entry_def contains_def startswith_def text_eval Let_def)
  have f: "directory_map_file alias_env = Some directory_map_doc"
    by (simp add: alias_env_def)
  have sp: "split_on newline directory_map_doc =
      [lit ''# Directory map'', []] @ lit ''| Alias | Path | Notes |''
        # [lit ''|-------|------|-------|''] @ lit ''| iree | /work/iree | main checkout |''
        # [lit ''| llvm | /work/llvm | |''] @ lit ''| iree | /work/iree-2 | second clone |''
        # [] @ [[], lit ''| late | /work/late | after the table |'', []]"
    by (simp add: directory_map_doc_def newline_def lit_def cp_def)
  have "parse_directory_map alias_env (lit ''iree'') = Some (Path (lit ''/work/iree-2''))
      \<and> resolve_repo alias_env (Some (lit ''iree'')) = Inr (Path (lit ''/work/iree-2''))"
    by (rule duplicate_alias_last_wins [OF f sp _ _ _ _ r1 r2])
       (simp_all add: contains_def startswith_def ends_table_def lit_def cp_def)
  with r1 r2 show ?thesis by simp
qed

end
